theory Spec2Isabelle
  imports Complex_Main
begin

section \<open>Strings\<close>

text \<open>
  A JavaScript string is modelled as a \<^typ>\<open>string\<close>: a list of code units, each below 256
  (the Latin-1 range). The helpers below follow the built-in methods the sources call.
\<close>

definition isWhiteSpace :: "char \<Rightarrow> bool" where
  \<comment> \<open>the code units \<open>String.prototype.trim\<close> strips: TAB, LF, VT, FF, CR, SP and NBSP\<close>
  "isWhiteSpace c = (of_char c \<in> {9, 10, 11, 12, 13, 32, 160 :: nat})"

definition trim :: "string \<Rightarrow> string" where
  "trim s = rev (dropWhile isWhiteSpace (rev (dropWhile isWhiteSpace s)))"

definition startsWith :: "string \<Rightarrow> string \<Rightarrow> bool" where
  "startsWith s p = (take (length p) s = p)"

definition endsWith :: "string \<Rightarrow> string \<Rightarrow> bool" where
  "endsWith s p = (length p \<le> length s \<and> drop (length s - length p) s = p)"

definition replaceDots :: "string \<Rightarrow> string" where
  \<comment> \<open>\<open>s.replace(/\./g, '__')\<close>\<close>
  "replaceDots s = concat (map (\<lambda>c. if c = CHR ''.'' then ''__'' else [c]) s)"

section \<open>Numbers\<close>

text \<open>
  A JavaScript number, as far as the sources need it. \<open>Finite r\<close> stands for the double
  nearest to \<open>r\<close>: a literal whose value rounds beyond the largest double becomes an infinity,
  the rounding within the finite range is not modelled.
\<close>

datatype jsnum = NaN | Finite rat | PlusInfinity | MinusInfinity

definition overflowBound :: rat where
  \<comment> \<open>the least magnitude that rounds to an infinity: \<open>2^1024 - 2^970\<close>\<close>
  "overflowBound = 2 ^ 1024 - 2 ^ 970"

definition toDouble :: "rat \<Rightarrow> jsnum" where
  "toDouble r =
    (if overflowBound \<le> r then PlusInfinity
     else if r \<le> - overflowBound then MinusInfinity
     else Finite r)"

definition isDecimalDigit :: "char \<Rightarrow> bool" where
  "isDecimalDigit c = (c \<in> set ''0123456789'')"

definition isDigits :: "string \<Rightarrow> bool" where
  "isDigits s = (s \<noteq> [] \<and> list_all isDecimalDigit s)"

definition digitValue :: "char \<Rightarrow> nat" where
  "digitValue c =
    (if c \<in> set ''0123456789'' then of_char c - 48
     else if c \<in> set ''abcdef'' then of_char c - 87
     else of_char c - 55)"

definition digitsValue :: "nat \<Rightarrow> string \<Rightarrow> nat" where
  "digitsValue base s = foldl (\<lambda>n c. base * n + digitValue c) 0 s"

definition exponentValue :: "string \<Rightarrow> int option" where
  \<comment> \<open>ExponentPart: \<open>e\<close> or \<open>E\<close>, an optional sign, one or more digits\<close>
  "exponentValue s =
    (case s of
       [] \<Rightarrow> None
     | e # r \<Rightarrow>
         if e \<notin> set ''eE'' then None
         else (case r of
                 [] \<Rightarrow> None
               | sg # ds \<Rightarrow>
                   if sg = CHR ''+'' then (if isDigits ds then Some (int (digitsValue 10 ds)) else None)
                   else if sg = CHR ''-'' then (if isDigits ds then Some (- int (digitsValue 10 ds)) else None)
                   else if isDigits r then Some (int (digitsValue 10 r)) else None))"

definition scale10 :: "rat \<Rightarrow> int \<Rightarrow> rat" where
  "scale10 r e = (if 0 \<le> e then r * 10 ^ nat e else r / 10 ^ nat (- e))"

definition unsignedDecimalValue :: "string \<Rightarrow> jsnum" where
  \<comment> \<open>StrUnsignedDecimalLiteral: \<open>Infinity\<close>, \<open>d.d?e?\<close>, \<open>.de?\<close> or \<open>de?\<close>; \<open>NaN\<close> when the text is none of them\<close>
  "unsignedDecimalValue s =
    (if s = ''Infinity'' then PlusInfinity
     else
       let ip = takeWhile isDecimalDigit s; r = dropWhile isDecimalDigit s in
       (case r of
          [] \<Rightarrow> if ip = [] then NaN else toDouble (of_nat (digitsValue 10 ip))
        | c # r2 \<Rightarrow>
            if c = CHR ''.'' then
              (let fp = takeWhile isDecimalDigit r2; r3 = dropWhile isDecimalDigit r2;
                   m = of_nat (digitsValue 10 ip) + of_nat (digitsValue 10 fp) / 10 ^ length fp
               in if ip = [] \<and> fp = [] then NaN
                  else if r3 = [] then toDouble m
                  else (case exponentValue r3 of None \<Rightarrow> NaN | Some e \<Rightarrow> toDouble (scale10 m e)))
            else if ip = [] then NaN
            else (case exponentValue r of
                    None \<Rightarrow> NaN
                  | Some e \<Rightarrow> toDouble (scale10 (of_nat (digitsValue 10 ip)) e))))"

definition negate :: "jsnum \<Rightarrow> jsnum" where
  "negate n = (case n of NaN \<Rightarrow> NaN | Finite r \<Rightarrow> Finite (- r)
               | PlusInfinity \<Rightarrow> MinusInfinity | MinusInfinity \<Rightarrow> PlusInfinity)"

definition radixValue :: "nat \<Rightarrow> string \<Rightarrow> string \<Rightarrow> jsnum" where
  "radixValue base digits ds =
    (if ds \<noteq> [] \<and> list_all (\<lambda>c. c \<in> set digits) ds
     then toDouble (of_nat (digitsValue base ds))
     else NaN)"

definition Number :: "string \<Rightarrow> jsnum" where
  \<comment> \<open>\<open>Number(s)\<close> for a string \<open>s\<close>: the StringToNumber grammar of the language\<close>
  "Number s =
    (let t = trim s in
     if t = [] then Finite 0
     else if startsWith t ''0x'' \<or> startsWith t ''0X'' then
       radixValue 16 ''0123456789abcdefABCDEF'' (drop 2 t)
     else if startsWith t ''0o'' \<or> startsWith t ''0O'' then radixValue 8 ''01234567'' (drop 2 t)
     else if startsWith t ''0b'' \<or> startsWith t ''0B'' then radixValue 2 ''01'' (drop 2 t)
     else (case t of
             [] \<Rightarrow> NaN
           | c # r \<Rightarrow>
               if c = CHR ''+'' then unsignedDecimalValue r
               else if c = CHR ''-'' then negate (unsignedDecimalValue r)
               else unsignedDecimalValue t))"

section \<open>Handles, errors and console messages\<close>

text \<open>A page-element handle: made by the driver from a selector, produced by a project
  function or engine, or the \<open>undefined\<close> that \<open>webLocResolver\<close> returns for \<open>-no-check-\<close>.\<close>

datatype handle = PageLocator string | Produced string | UndefinedHandle

text \<open>Thrown values. Every \<open>throw\<close> of the sources and every failing collaborator is one of them.\<close>

datatype error =
    InvalidLocatorFormat string
  | UnknownLocatorSource string
  | JsonModuleNotFound string
  | PageNotFound string string
  | FieldNotFound string string string
  | TypeError
  | WriteFailed
  | External string
  | ParseFailed string
  | PageNotInitialized
  | TextNotFound string "string + handle" jsnum string

text \<open>What \<open>console.warn\<close> and \<open>console.error\<close> print (the \<open>console.log\<close> traces are left out).\<close>

datatype logmsg =
    EmptyKeyWarning
  | VariableNotFound string
  | DecryptWarning string error
  | StaticJsonParseWarning
  | StaticJsonWriteError
  | SmartAiUnavailable
  | PatternIqUnavailable
  | AttachLogEmptyMessage
  | NoWorldAttach
  | UnknownRunner
  | ScreenshotAttachError

section \<open>The variable store (bundle/vars)\<close>

text \<open>
  \<open>resources/var.static.json\<close> as \<open>updateVarStaticJson\<close> finds it: its directory may be absent,
  the file may be absent, its text may fail \<open>JSON.parse\<close>, it may parse to \<open>null\<close> or a
  primitive, or it holds an object of strings.
\<close>

datatype staticFile =
    NoDirectory
  | NoFile
  | Unparsable
  | NotAnObject
  | Parsed "string \<rightharpoonup> string"

text \<open>
  The process-wide state. \<open>storedVars\<close> and \<open>processEnv\<close> hold the own properties of the two
  objects; both objects also inherit the members of \<open>Object.prototype\<close>, which the \<open>in\<close> test
  and a property read find under the names below, and which an assignment to \<open>__proto__\<close>
  does not turn into an own property.
\<close>

definition objectPrototypeKeys :: "string list" where
  "objectPrototypeKeys =
    [''constructor'', ''__defineGetter__'', ''__defineSetter__'', ''hasOwnProperty'',
     ''__lookupGetter__'', ''__lookupSetter__'', ''isPrototypeOf'', ''propertyIsEnumerable'',
     ''toString'', ''valueOf'', ''__proto__'', ''toLocaleString'']"

text \<open>What \<open>getValue\<close> hands back: a string, or the inherited member found under a name.\<close>

datatype stored = Text string | Inherited string

record world =
  storedVars :: "string \<rightharpoonup> string"
  loggedMissingKeys :: "string set"
  processEnv :: "string \<rightharpoonup> string"
  console :: "logmsg list"
  varStaticJson :: staticFile
  diskWritable :: bool

definition warn :: "logmsg \<Rightarrow> world \<Rightarrow> world" where
  "warn m w = w\<lparr>console := console w @ [m]\<rparr>"

definition getValue :: "string \<Rightarrow> bool \<Rightarrow> world \<Rightarrow> stored \<times> world" where
  "getValue key0 ifEmpty w =
    (if key0 = [] then (Text (if ifEmpty then [] else key0), warn EmptyKeyWarning w)
     else
       let key = trim key0 in
       if startsWith key ''env.'' then
         (case processEnv w (drop 4 key) of
            None \<Rightarrow>
              if drop 4 key \<in> set objectPrototypeKeys then (Inherited (drop 4 key), w)
              else (Text (if ifEmpty then [] else key), w)
          | Some envValue \<Rightarrow>
              if envValue = [] then (Text (if ifEmpty then [] else key), w)
              else (Text envValue, w))
       else
         (case storedVars w key of
            Some v \<Rightarrow> (Text (if ifEmpty \<and> v = key then [] else v), w)
          | None \<Rightarrow>
              if key \<in> set objectPrototypeKeys then (Inherited key, w)
              else
                (Text (if ifEmpty then [] else key),
                 (if \<not> ifEmpty \<and> key \<notin> loggedMissingKeys w
                  then (warn (VariableNotFound key) w)
                         \<lparr>loggedMissingKeys := insert key (loggedMissingKeys w)\<rparr>
                  else w))))"

definition getConfigValue :: "string \<Rightarrow> bool \<Rightarrow> world \<Rightarrow> string \<times> world" where
  "getConfigValue key ifEmpty w =
    (let rawKey = trim key;
         envKey = ''PLAYQ__'' @ replaceDots rawKey;
         envValue = (case processEnv w envKey of None \<Rightarrow> [] | Some v \<Rightarrow> v)
     in
       if envValue \<noteq> [] then (envValue, w)
       else
         let fullKey = ''config.'' @ rawKey in
         (case storedVars w fullKey of
            Some v \<Rightarrow> (v, w)
          | None \<Rightarrow>
              if fullKey \<notin> loggedMissingKeys w then
                (let w' = w\<lparr>loggedMissingKeys := insert fullKey (loggedMissingKeys w)\<rparr>
                 in if ifEmpty then ([], w') else (fullKey, w'))
              else (fullKey, w)))"

definition updateVarStaticJson :: "string \<Rightarrow> string \<Rightarrow> world \<Rightarrow> (error + unit) \<times> world" where
  \<comment> \<open>read, upsert, create the directory, write; the module is compiled in strict mode, so a
      property write on a parsed non-object throws; writing \<open>__proto__\<close> changes the data only
      when the parsed object has such a member of its own\<close>
  "updateVarStaticJson key v w =
    (case varStaticJson w of
       NotAnObject \<Rightarrow> (Inl TypeError, w)
     | f \<Rightarrow>
        (let w1 = (if f = Unparsable then warn StaticJsonParseWarning w else w);
             data = (case f of Parsed m \<Rightarrow> m | _ \<Rightarrow> Map.empty);
             data' = (if key = ''__proto__'' \<and> data key = None then data else data(key \<mapsto> v))
         in
           if f = NoDirectory \<and> \<not> diskWritable w then (Inl WriteFailed, w1)
           else if \<not> diskWritable w then (Inl WriteFailed, warn StaticJsonWriteError w1)
           else (Inr (), w1\<lparr>varStaticJson := Parsed data'\<rparr>)))"

definition setValue :: "string \<Rightarrow> string \<Rightarrow> world \<Rightarrow> (error + unit) \<times> world" where
  "setValue key v w =
    (let w1 = (if key = ''__proto__'' then w
               else w\<lparr>storedVars := (storedVars w)(key \<mapsto> v)\<rparr>) in
     if startsWith key ''var.static.'' then updateVarStaticJson (drop 11 key) v w1
     else (Inr (), w1))"

text \<open>\<open>n\<close> successive calls \<open>getValue(key)\<close>, nothing else in between.\<close>

fun getValueTimes :: "nat \<Rightarrow> string \<Rightarrow> world \<Rightarrow> world" where
  "getValueTimes 0 key w = w"
| "getValueTimes (Suc n) key w = getValueTimes n key (snd (getValue key False w))"

definition emptyWorld :: world where
  "emptyWorld = \<lparr>storedVars = Map.empty, loggedMissingKeys = {}, processEnv = Map.empty,
                 console = [], varStaticJson = NoFile, diskWritable = True\<rparr>"

section \<open>Collaborators\<close>

text \<open>
  What the sources consume and do not define: the decrypt utility (its \<open>require\<close> included),
  \<open>Number::toString\<close> on a finite number, the text \<open>String\<close> makes of an inherited member, the
  global locator namespace \<open>globalThis.loc\<close> (file, page, field, then a function, given here by
  what it returns or throws on the active page), what the lookup in that namespace yields when
  it passes through a member inherited from \<open>Object.prototype\<close> (nothing when the value reached
  is falsy, otherwise the outcome of calling it), the JSON locator files, what the read of
  \<open>jsonLocatorMap[pageName][fieldName]\<close> yields when the page or the field is such an inherited
  member (nothing when the value is falsy, otherwise the text \<open>toString\<close> makes of it), and the
  two engines of \<open>globalThis.engines\<close> (present only when the registry holds a function under
  the key).
\<close>

record externals =
  cryptoDecrypt :: "string \<Rightarrow> error + string"
  finiteToString :: "rat \<Rightarrow> string"
  memberToString :: "string \<Rightarrow> string"
  globalLoc :: "(string \<rightharpoonup> string \<rightharpoonup> string \<rightharpoonup> error + handle) option"
  inheritedLoc :: "string \<Rightarrow> string \<Rightarrow> string \<Rightarrow> (error + handle) option"
  jsonLocators :: "string \<rightharpoonup> string \<rightharpoonup> string \<rightharpoonup> string"
  inheritedJson :: "string \<Rightarrow> string \<Rightarrow> string \<Rightarrow> string option"
  smartAi :: "(string option \<Rightarrow> string \<Rightarrow> string \<Rightarrow> error + handle) option"
  patternIq ::
    "(string option \<Rightarrow> string \<Rightarrow> string option \<Rightarrow> jsnum option \<Rightarrow> error + handle) option"

definition numberToString :: "externals \<Rightarrow> jsnum \<Rightarrow> string" where
  "numberToString x n =
    (case n of NaN \<Rightarrow> ''NaN'' | Finite r \<Rightarrow> finiteToString x r
     | PlusInfinity \<Rightarrow> ''Infinity'' | MinusInfinity \<Rightarrow> ''-Infinity'')"

definition toText :: "externals \<Rightarrow> stored \<Rightarrow> string" where
  \<comment> \<open>the string \<open>replace\<close> makes of what the replacer returns\<close>
  "toText x v = (case v of Text s \<Rightarrow> s | Inherited m \<Rightarrow> memberToString x m)"

definition toNumber :: "stored \<Rightarrow> jsnum" where
  \<comment> \<open>\<open>Number(value)\<close>: an inherited function or object is not a number\<close>
  "toNumber v = (case v of Text s \<Rightarrow> Number s | Inherited m \<Rightarrow> NaN)"

section \<open>Placeholder substitution (replaceVariables)\<close>

fun removeFirst :: "string \<Rightarrow> string \<Rightarrow> string" where
  \<comment> \<open>\<open>s.replace(p, "")\<close> with a string pattern: the first occurrence goes\<close>
  "removeFirst p [] = []"
| "removeFirst p (c # cs) =
    (if startsWith (c # cs) p then drop (length p) (c # cs) else c # removeFirst p cs)"

definition replaceCallback :: "externals \<Rightarrow> string \<Rightarrow> world \<Rightarrow> (error + string) \<times> world" where
  \<comment> \<open>the replacer function; each \<open>try\<close>/\<open>catch\<close> is the case on what decrypt returns\<close>
  "replaceCallback x varName w =
    (if startsWith varName ''pwd.'' then
       (case cryptoDecrypt x (drop 4 varName) of
          Inr plain \<Rightarrow> (Inr plain, w)
        | Inl e \<Rightarrow> (Inr varName, warn (DecryptWarning ''pwd'' e) w))
     else if startsWith varName ''enc.'' then
       (case cryptoDecrypt x (drop 4 varName) of
          Inr plain \<Rightarrow> (Inr plain, w)
        | Inl e \<Rightarrow> (Inr varName, warn (DecryptWarning ''enc'' e) w))
     else if endsWith varName ''.(toNumber)'' then
       (let baseVar = removeFirst ''.(toNumber)'' varName;
            r = getValue baseVar False w
        in (Inr (if fst r \<noteq> Text [] then numberToString x (toNumber (fst r)) else []), snd r))
     else
       (let r = getValue varName False w in (Inr (toText x (fst r)), snd r)))"

definition matchPlaceholder :: "string \<Rightarrow> (string \<times> string) option" where
  \<comment> \<open>\<open>/\#\{([^}]+)\}/\<close> anchored at the head of the text: the captured group and what follows
      the match\<close>
  "matchPlaceholder s =
    (if startsWith s ''#{'' then
       (let body = takeWhile (\<lambda>c. c \<noteq> CHR ''}'') (drop 2 s);
            rest = dropWhile (\<lambda>c. c \<noteq> CHR ''}'') (drop 2 s)
        in if body \<noteq> [] \<and> rest \<noteq> [] then Some (body, tl rest) else None)
     else None)"

function replaceScan :: "externals \<Rightarrow> string \<Rightarrow> world \<Rightarrow> (error + string) \<times> world" where
  "replaceScan x [] w = (Inr [], w)"
| "replaceScan x (c # cs) w =
    (case matchPlaceholder (c # cs) of
       Some (varName, rest) \<Rightarrow>
         (case replaceCallback x varName w of
            (Inl e, w') \<Rightarrow> (Inl e, w')
          | (Inr r, w') \<Rightarrow>
              (case replaceScan x rest w' of
                 (Inl e, w'') \<Rightarrow> (Inl e, w'')
               | (Inr out, w'') \<Rightarrow> (Inr (r @ out), w'')))
     | None \<Rightarrow>
         (case replaceScan x cs w of
            (Inl e, w') \<Rightarrow> (Inl e, w')
          | (Inr out, w') \<Rightarrow> (Inr (c # out), w')))"
  by pat_completeness auto
termination
proof (relation "measure (\<lambda>(x, s, w). length s)")
  fix x :: externals and c :: char and cs :: string and w w' :: world
    and p :: "string \<times> string" and varName rest :: string
    and q :: "(error + string) \<times> world" and res :: "error + string" and r :: string
  assume m: "matchPlaceholder (c # cs) = Some p" and p: "(varName, rest) = p"
  let ?d = "dropWhile (\<lambda>c. c \<noteq> CHR ''}'') (drop 2 (c # cs))"
  from m p have r: "rest = tl ?d" and ne: "?d \<noteq> []"
    by (auto simp: matchPlaceholder_def Let_def split: if_splits)
  have "length ?d \<le> length (drop 2 (c # cs))" by (rule length_dropWhile_le)
  with ne r have "length rest < length (c # cs)" by (cases ?d) auto
  then show "((x, rest, w'), (x, c # cs, w)) \<in> measure (\<lambda>(x, s, w). length s)" by simp
qed auto

definition replaceVariables :: "externals \<Rightarrow> string \<Rightarrow> world \<Rightarrow> (error + string) \<times> world" where
  \<comment> \<open>\<open>input.replace(/\#\{([^}]+)\}/g, callback)\<close> on a string input\<close>
  "replaceVariables x input w = replaceScan x input w"

fun terminated :: "string \<Rightarrow> bool" where
  \<comment> \<open>every \<open>#{\<close> of the text is followed, within the text, by a \<open>}\<close>\<close>
  "terminated [] = True"
| "terminated (c # cs) =
    ((\<not> startsWith (c # cs) ''#{'' \<or> CHR ''}'' \<in> set (drop 1 cs)) \<and> terminated cs)"





section \<open>The locator resolver (webLocResolver)\<close>

definition toLowerChar :: "char \<Rightarrow> char" where
  \<comment> \<open>\<open>A\<close> to \<open>Z\<close> and the upper-case letters of Latin-1 move up by 32\<close>
  "toLowerChar c =
    (let n = (of_char c :: nat) in
     if (65 \<le> n \<and> n \<le> 90) \<or> (192 \<le> n \<and> n \<le> 222 \<and> n \<noteq> 215) then char_of (n + 32) else c)"

definition toLowerCase :: "string \<Rightarrow> string" where
  "toLowerCase s = map toLowerChar s"

fun includesStr :: "string \<Rightarrow> string \<Rightarrow> bool" where
  \<comment> \<open>\<open>s.includes(p)\<close>\<close>
  "includesStr [] p = (p = [])"
| "includesStr (c # cs) p = (startsWith (c # cs) p \<or> includesStr cs p)"

fun splitOn :: "char \<Rightarrow> string \<Rightarrow> string list" where
  \<comment> \<open>\<open>s.split(d)\<close> for a one-character separator\<close>
  "splitOn d [] = [[]]"
| "splitOn d (c # cs) =
    (if c = d then [] # splitOn d cs
     else (case splitOn d cs of [] \<Rightarrow> [[c]] | p # ps \<Rightarrow> (c # p) # ps))"

definition partAt :: "string list \<Rightarrow> nat \<Rightarrow> string" where
  \<comment> \<open>an element of a destructured array, used as a property key or inside a template:
      a missing element is \<open>undefined\<close>, which both uses turn into the text \<open>undefined\<close>\<close>
  "partAt parts i = (if i < length parts then parts ! i else ''undefined'')"

fun unescapeSlashes :: "string \<Rightarrow> string" where
  \<comment> \<open>\<open>.replace(/\\\//g, "/")\<close>: a backslash followed by a slash becomes a slash\<close>
  "unescapeSlashes [] = []"
| "unescapeSlashes [c] = [c]"
| "unescapeSlashes (c # d # cs) =
    (if c = CHR 0x5C \<and> d = CHR ''/'' then CHR ''/'' # unescapeSlashes cs
     else c # unescapeSlashes (d # cs))"

definition isPlaywrightPrefixed :: "string \<Rightarrow> bool" where
  "isPlaywrightPrefixed selector =
    (startsWith selector ''xpath='' \<or> startsWith selector ''xpath ='' \<or>
     startsWith selector ''css='' \<or> startsWith selector ''css ='')"

definition rawSelector :: "string \<Rightarrow> string" where
  \<comment> \<open>the three \<open>replace\<close> calls of the prefixed branch, in order\<close>
  "rawSelector selector =
    (let s1 = (if startsWith selector (''xpath='' @ [CHR 0x5C]) then ''xpath='' @ drop 7 selector
               else if startsWith selector (''xpath ='' @ [CHR 0x5C]) then ''xpath='' @ drop 8 selector
               else selector);
         s2 = (if startsWith s1 ''xpath='' then drop 6 s1
               else if startsWith s1 ''xpath ='' then drop 7 s1
               else if startsWith s1 ''css='' then drop 4 s1
               else if startsWith s1 ''css ='' then drop 5 s1
               else s1)
     in unescapeSlashes s2)"

definition isPlaywrightChainedPrefixed :: "string \<Rightarrow> bool" where
  "isPlaywrightChainedPrefixed selector =
    (startsWith selector ''chain='' \<or> startsWith selector ''chain ='')"

definition chainSelector :: "string \<Rightarrow> string" where
  \<comment> \<open>\<open>selector.replace(/^chain=|^chain =/, "")\<close>\<close>
  "chainSelector selector =
    (if startsWith selector ''chain='' then drop 6 selector
     else if startsWith selector ''chain ='' then drop 7 selector
     else selector)"

definition isXPath :: "string \<Rightarrow> bool" where
  "isXPath selector = (startsWith (trim selector) ''//'' \<or> startsWith (trim selector) ''('')"

definition isCSS :: "string \<Rightarrow> bool" where
  "isCSS selector =
    (includesStr selector ''>'' \<or> startsWith selector ''.'' \<or> includesStr selector ''#'')"

definition isChained :: "string \<Rightarrow> bool" where
  "isChained selector = includesStr selector ''>>''"

definition isResourceLocator :: "string \<Rightarrow> bool" where
  "isResourceLocator selector = startsWith selector ''loc.''"

definition locLookup :: "externals \<Rightarrow> string \<Rightarrow> string \<Rightarrow> string \<Rightarrow> (error + handle) option" where
  \<comment> \<open>\<open>globalLoc?.[fileName]?.[pageName]?.[fieldName]\<close>: \<open>None\<close> when some level is missing, else
      what calling the entry gives\<close>
  "locLookup x fileName pageName fieldName =
    (case globalLoc x of
       None \<Rightarrow> None
     | Some g \<Rightarrow>
         (case g fileName of
            None \<Rightarrow>
              if fileName \<in> set objectPrototypeKeys then inheritedLoc x fileName pageName fieldName
              else None
          | Some pages \<Rightarrow>
              (case pages pageName of
                 None \<Rightarrow>
                   if pageName \<in> set objectPrototypeKeys
                   then inheritedLoc x fileName pageName fieldName else None
               | Some fieldMap \<Rightarrow>
                   (case fieldMap fieldName of
                      None \<Rightarrow>
                        if fieldName \<in> set objectPrototypeKeys
                        then inheritedLoc x fileName pageName fieldName else None
                    | Some produced \<Rightarrow> Some produced))))"

definition resolveResource :: "externals \<Rightarrow> string \<Rightarrow> world \<Rightarrow> (error + handle) \<times> world" where
  \<comment> \<open>the body of \<open>if (isResourceLocator)\<close>\<close>
  "resolveResource x selector w =
    (let parts = splitOn CHR ''.'' selector in
     if length parts < 3 then (Inl (InvalidLocatorFormat selector), w)
     else if startsWith selector ''loc.json.'' then
       (let fileName = partAt parts 2; pageName = partAt parts 3; fieldName = partAt parts 4 in
        case jsonLocators x fileName of
          None \<Rightarrow> (Inl (JsonModuleNotFound fileName), w)
        | Some jsonLocatorMap \<Rightarrow>
            (case (case jsonLocatorMap pageName of
                     None \<Rightarrow>
                       if pageName \<in> set objectPrototypeKeys
                       then Inr (inheritedJson x fileName pageName fieldName)
                       else Inl (PageNotFound pageName fileName)
                   | Some pageObj \<Rightarrow>
                       (case pageObj fieldName of
                          None \<Rightarrow>
                            if fieldName \<in> set objectPrototypeKeys
                            then Inr (inheritedJson x fileName pageName fieldName)
                            else Inr None
                        | Some locatorString \<Rightarrow>
                            Inr (if locatorString = [] then None else Some locatorString))) of
               Inl e \<Rightarrow> (Inl e, w)
             | Inr None \<Rightarrow> (Inl (FieldNotFound fieldName fileName pageName), w)
             | Inr (Some locatorString) \<Rightarrow>
                 (case replaceVariables x locatorString w of
                    (Inl e, w') \<Rightarrow> (Inl e, w')
                  | (Inr s, w') \<Rightarrow> (Inr (PageLocator s), w'))))
     else
       (case (if startsWith selector ''loc.ts.''
              then locLookup x (partAt parts 2) (partAt parts 3) (partAt parts 4) else None) of
          Some produced \<Rightarrow> (produced, w)
        | None \<Rightarrow>
            (case locLookup x (partAt parts 1) (partAt parts 2) (partAt parts 3) of
               Some produced \<Rightarrow> (produced, w)
             | None \<Rightarrow> (Inl (UnknownLocatorSource (partAt parts 1)), w))))"

definition resolveByEngines ::
  "externals \<Rightarrow> string option \<Rightarrow> string \<Rightarrow> string option \<Rightarrow> jsnum option \<Rightarrow> string \<Rightarrow> world
    \<Rightarrow> (error + handle) \<times> world" where
  \<comment> \<open>SmartAI, then PatternIQ, then the default locator\<close>
  "resolveByEngines x type selector overridePattern timeout smartAiRefresh w =
    (let c1 = getConfigValue ''smartAi.enable'' False w;
         isSmartAiEnabled = (trim (toLowerCase (fst c1)) = ''true'');
         w1 = snd c1
     in
       (case (if isSmartAiEnabled then smartAi x else None) of
          Some smartAiEngine \<Rightarrow> (smartAiEngine type selector smartAiRefresh, w1)
        | None \<Rightarrow>
            (let w2 = (if isSmartAiEnabled then warn SmartAiUnavailable w1 else w1);
                 c2 = getConfigValue ''patternIq.enable'' False w2;
                 isPatternEnabled = (trim (toLowerCase (fst c2)) = ''true'');
                 w3 = snd c2
             in
               if isPatternEnabled then
                 (case patternIq x of
                    Some patternEngine \<Rightarrow>
                      (patternEngine type selector overridePattern timeout, w3)
                  | None \<Rightarrow> (Inr (PageLocator selector), warn PatternIqUnavailable w3))
               else (Inr (PageLocator selector), w3))))"

definition webLocResolver ::
  "externals \<Rightarrow> string option \<Rightarrow> string \<Rightarrow> string option \<Rightarrow> jsnum option \<Rightarrow> string \<Rightarrow> world
    \<Rightarrow> (error + handle) \<times> world" where
  "webLocResolver x type selector overridePattern timeout smartAiRefresh w =
    (if isPlaywrightPrefixed selector then (Inr (PageLocator (rawSelector selector)), w)
     else if isPlaywrightChainedPrefixed selector then
       (Inr (PageLocator (chainSelector selector)), w)
     else if (isXPath selector \<or> isCSS selector \<or> isChained selector)
             \<and> \<not> isResourceLocator selector then
       (Inr (PageLocator selector), w)
     else if isResourceLocator selector then resolveResource x selector w
     else if (case overridePattern of
                None \<Rightarrow> False
              | Some p \<Rightarrow> p \<noteq> [] \<and> toLowerCase p = ''-no-check-'') then
       (Inr UndefinedHandle, w)
     else resolveByEngines x type selector overridePattern timeout smartAiRefresh w)"

definition noExternals :: externals where
  \<comment> \<open>decryption fails, no locator namespace, no JSON locator files, no engines\<close>
  "noExternals = \<lparr>cryptoDecrypt = (\<lambda>c. Inl (External ''decrypt'')),
                   finiteToString = (\<lambda>r. ''0''), memberToString = (\<lambda>m. ''[object Object]''),
                   globalLoc = None, inheritedLoc = (\<lambda>f p fld. None), jsonLocators = Map.empty,
                   inheritedJson = (\<lambda>f p fld. None),
                   smartAi = None, patternIq = None\<rparr>"

section \<open>Regular expressions\<close>

text \<open>
  The source's regular expressions are kept as syntax trees and run by a backtracking matcher.
  A matcher state is the text before the position (reversed), the text after it, and the groups
  captured so far, the latest first. \<open>ms r s\<close> lists every way \<open>r\<close> can match at \<open>s\<close>, in the
  order a backtracking engine tries them: the head of the list is the match the engine reports.
\<close>

datatype re =
    Eps
  | Lit char
  | CharSet string
  | NotSet string
  | Space
  | WordBoundary
  | Seq re re
  | Alt re re
  | Star re
  | Group nat re

definition Plus :: "re \<Rightarrow> re" where
  "Plus r = Seq r (Star r)"

definition Opt :: "re \<Rightarrow> re" where
  "Opt r = Alt r Eps"

definition Str :: "string \<Rightarrow> re" where
  "Str s = foldr (\<lambda>c r. Seq (Lit c) r) s Eps"

type_synonym mstate = "string \<times> string \<times> (nat \<times> string) list"

definition isWordChar :: "char \<Rightarrow> bool" where
  "isWordChar c =
    (c \<in> set ''abcdefghijklmnopqrstuvwxyzABCDEFGHIJKLMNOPQRSTUVWXYZ0123456789_'')"

definition stepChar :: "(char \<Rightarrow> bool) \<Rightarrow> mstate \<Rightarrow> mstate list" where
  "stepChar P s =
    (case s of (b, a, k) \<Rightarrow>
       (case a of [] \<Rightarrow> [] | c # cs \<Rightarrow> if P c then [(c # b, cs, k)] else []))"

definition remaining :: "mstate \<Rightarrow> nat" where
  "remaining s = length (fst (snd s))"

definition capture :: "nat \<Rightarrow> mstate \<Rightarrow> mstate \<Rightarrow> mstate" where
  "capture n s0 s1 =
    (case s1 of (b, a, k) \<Rightarrow> (b, a, (n, rev (take (length b - length (fst s0)) b)) # k))"

function (sequential) ms :: "re \<Rightarrow> mstate \<Rightarrow> mstate list" where
  "ms Eps s = [s]"
| "ms (Lit c) s = stepChar (\<lambda>x. x = c) s"
| "ms (CharSet cs) s = stepChar (\<lambda>x. x \<in> set cs) s"
| "ms (NotSet cs) s = stepChar (\<lambda>x. x \<notin> set cs) s"
| "ms Space s = stepChar isWhiteSpace s"
| "ms WordBoundary s =
    (case s of (b, a, k) \<Rightarrow>
       if (case b of [] \<Rightarrow> False | c # _ \<Rightarrow> isWordChar c)
          \<noteq> (case a of [] \<Rightarrow> False | c # _ \<Rightarrow> isWordChar c)
       then [s] else [])"
| "ms (Seq r1 r2) s = concat (map (ms r2) (ms r1 s))"
| "ms (Alt r1 r2) s = ms r1 s @ ms r2 s"
| "ms (Star r) s =
    concat (map (\<lambda>s'. if remaining s' < remaining s then ms (Star r) s' else []) (ms r s)) @ [s]"
| "ms (Group n r) s = map (capture n s) (ms r s)"
  by pat_completeness auto
termination
  by (relation "measures [\<lambda>(r, s). size r, \<lambda>(r, s). remaining s]") auto

text \<open>
  \<open>text.replace(/r/g, f)\<close> with a replacer function that also threads a state (the array the
  first replacer of \<open>parseLooseJson\<close> pushes to). \<open>b\<close> is the text already passed (reversed)
  and \<open>a\<close> the text still to scan; an empty match copies one character and moves on.
\<close>

function regexReplaceAll ::
  "re \<Rightarrow> ('st \<Rightarrow> string \<Rightarrow> (nat \<times> string) list \<Rightarrow> string \<times> 'st) \<Rightarrow> 'st \<Rightarrow> string \<Rightarrow> string
    \<Rightarrow> string \<times> 'st" where
  "regexReplaceAll r f st b a =
    (case ms r (b, a, []) of
       [] \<Rightarrow>
         (case a of
            [] \<Rightarrow> ([], st)
          | c # cs \<Rightarrow>
              (case regexReplaceAll r f st (c # b) cs of (rest, st') \<Rightarrow> (c # rest, st')))
     | m # _ \<Rightarrow>
         (case f st (rev (take (length (fst m) - length b) (fst m))) (snd (snd m)) of
            (out, st1) \<Rightarrow>
              if remaining m < length a then
                (case regexReplaceAll r f st1 (fst m) (fst (snd m)) of
                   (rest, st2) \<Rightarrow> (out @ rest, st2))
              else
                (case a of
                   [] \<Rightarrow> (out, st1)
                 | c # cs \<Rightarrow>
                     (case regexReplaceAll r f st1 (c # b) cs of
                        (rest, st2) \<Rightarrow> (out @ c # rest, st2)))))"
  by pat_completeness auto
termination
  by (relation "measure (\<lambda>(r, f, st, b, a). length a)") (auto simp: remaining_def)

declare regexReplaceAll.simps [simp del]

definition regexReplace ::
  "re \<Rightarrow> (string \<Rightarrow> (nat \<times> string) list \<Rightarrow> string) \<Rightarrow> string \<Rightarrow> string" where
  "regexReplace r f s = fst (regexReplaceAll r (\<lambda>u m k. (f m k, u)) () [] s)"

definition groupText :: "(nat \<times> string) list \<Rightarrow> nat \<Rightarrow> string" where
  \<comment> \<open>a captured group as the replacer sees it\<close>
  "groupText k n = (case map_of k n of None \<Rightarrow> ''undefined'' | Some s \<Rightarrow> s)"

section \<open>JSON.parse\<close>

text \<open>
  A parsed JSON value; an object keeps its members in insertion order, a repeated key
  overwriting in place (the engine's listing of integer-like keys first is not modelled, nor the
  rounding of a number to a double). Strings stay within the code units of the model: an
  escape \<open>\uXXXX\<close> above \<open>00FF\<close> is outside it and is rejected here.
\<close>

datatype json =
    JNull
  | JBool bool
  | JNum rat
  | JStr string
  | JArr "json list"
  | JObj "(string \<times> json) list"

datatype token =
    TLBrace | TRBrace | TLBrack | TRBrack | TColon | TComma
  | TString string | TNumber rat | TTrue | TFalse | TNull

datatype lexmode =
    LStart
  | LString string
  | LEscape string
  | LUnicode string string
  | LNumber string
  | LWord string

definition jsonNumber :: "string \<Rightarrow> rat option" where
  \<comment> \<open>\<open>-? (0 | [1-9][0-9]*) (. [0-9]+)? ([eE] [+-]? [0-9]+)?\<close>\<close>
  "jsonNumber s =
    (let neg = startsWith s ''-'';
         s1 = (if neg then drop 1 s else s);
         ip = takeWhile isDecimalDigit s1;
         r = dropWhile isDecimalDigit s1;
         sign = (if neg then - 1 else 1 :: rat)
     in
       if ip = [] \<or> (hd ip = CHR ''0'' \<and> ip \<noteq> ''0'') then None
       else
         (case r of
            [] \<Rightarrow> Some (sign * of_nat (digitsValue 10 ip))
          | c # r2 \<Rightarrow>
              if c = CHR ''.'' then
                (let fp = takeWhile isDecimalDigit r2; r3 = dropWhile isDecimalDigit r2;
                     m = of_nat (digitsValue 10 ip) + of_nat (digitsValue 10 fp) / 10 ^ length fp
                 in if fp = [] then None
                    else if r3 = [] then Some (sign * m)
                    else map_option (\<lambda>e. sign * scale10 m e) (exponentValue r3))
              else map_option (\<lambda>e. sign * scale10 (of_nat (digitsValue 10 ip)) e)
                     (exponentValue r)))"

definition wordToken :: "string \<Rightarrow> token option" where
  "wordToken s =
    (if s = ''true'' then Some TTrue
     else if s = ''false'' then Some TFalse
     else if s = ''null'' then Some TNull
     else None)"

definition startStep :: "char \<Rightarrow> (token list \<times> lexmode) option" where
  "startStep c =
    (if of_char c \<in> {9, 10, 13, 32 :: nat} then Some ([], LStart)
     else if c = CHR ''{'' then Some ([TLBrace], LStart)
     else if c = CHR ''}'' then Some ([TRBrace], LStart)
     else if c = CHR ''['' then Some ([TLBrack], LStart)
     else if c = CHR '']'' then Some ([TRBrack], LStart)
     else if c = CHR '':'' then Some ([TColon], LStart)
     else if c = CHR '','' then Some ([TComma], LStart)
     else if c = CHR 0x22 then Some ([], LString [])
     else if c \<in> set ''-0123456789'' then Some ([], LNumber [c])
     else if c \<in> set ''abcdefghijklmnopqrstuvwxyz'' then Some ([], LWord [c])
     else None)"

definition lexStep :: "lexmode \<Rightarrow> char \<Rightarrow> (token list \<times> lexmode) option" where
  "lexStep m c =
    (case m of
       LStart \<Rightarrow> startStep c
     | LString acc \<Rightarrow>
         if c = CHR 0x22 then Some ([TString acc], LStart)
         else if c = CHR 0x5C then Some ([], LEscape acc)
         else if (of_char c :: nat) < 32 then None
         else Some ([], LString (acc @ [c]))
     | LEscape acc \<Rightarrow>
         if c = CHR 0x22 \<or> c = CHR 0x5C \<or> c = CHR ''/'' then Some ([], LString (acc @ [c]))
         else if c = CHR ''b'' then Some ([], LString (acc @ [CHR 0x08]))
         else if c = CHR ''f'' then Some ([], LString (acc @ [CHR 0x0C]))
         else if c = CHR ''n'' then Some ([], LString (acc @ [CHR 0x0A]))
         else if c = CHR ''r'' then Some ([], LString (acc @ [CHR 0x0D]))
         else if c = CHR ''t'' then Some ([], LString (acc @ [CHR 0x09]))
         else if c = CHR ''u'' then Some ([], LUnicode acc [])
         else None
     | LUnicode acc ds \<Rightarrow>
         if c \<notin> set ''0123456789abcdefABCDEF'' then None
         else if length ds < 3 then Some ([], LUnicode acc (ds @ [c]))
         else if digitsValue 16 (ds @ [c]) < 256
           then Some ([], LString (acc @ [char_of (digitsValue 16 (ds @ [c]))]))
         else None
     | LNumber acc \<Rightarrow>
         if c \<in> set ''0123456789+-.eE'' then Some ([], LNumber (acc @ [c]))
         else (case jsonNumber acc of
                 None \<Rightarrow> None
               | Some n \<Rightarrow> map_option (\<lambda>p. (TNumber n # fst p, snd p)) (startStep c))
     | LWord acc \<Rightarrow>
         if c \<in> set ''abcdefghijklmnopqrstuvwxyz'' then Some ([], LWord (acc @ [c]))
         else (case wordToken acc of
                 None \<Rightarrow> None
               | Some t \<Rightarrow> map_option (\<lambda>p. (t # fst p, snd p)) (startStep c)))"

definition lexEnd :: "lexmode \<Rightarrow> token list option" where
  "lexEnd m =
    (case m of
       LStart \<Rightarrow> Some []
     | LNumber acc \<Rightarrow> map_option (\<lambda>n. [TNumber n]) (jsonNumber acc)
     | LWord acc \<Rightarrow> map_option (\<lambda>t. [t]) (wordToken acc)
     | _ \<Rightarrow> None)"

fun lexAll :: "lexmode \<Rightarrow> string \<Rightarrow> token list option" where
  "lexAll m [] = lexEnd m"
| "lexAll m (c # cs) =
    (case lexStep m c of
       None \<Rightarrow> None
     | Some p \<Rightarrow> map_option (\<lambda>rest. fst p @ rest) (lexAll (snd p) cs))"

fun upsert :: "string \<Rightarrow> json \<Rightarrow> (string \<times> json) list \<Rightarrow> (string \<times> json) list" where
  "upsert k v [] = [(k, v)]"
| "upsert k v (p # ps) = (if fst p = k then (k, v) # ps else p # upsert k v ps)"

text \<open>The parser: one step per token, over a stack of the arrays and objects still open.\<close>

datatype frame = FArr "json list" | FObj "(string \<times> json) list" string

datatype pmode =
    WantValue
  | WantValueOrClose
  | WantKeyOrClose
  | WantKey "(string \<times> json) list"
  | WantColon "(string \<times> json) list" string
  | Done json

definition startValue :: "frame list \<Rightarrow> token \<Rightarrow> (pmode \<times> frame list) option" where
  "startValue st t =
    (case t of
       TLBrace \<Rightarrow> Some (WantKeyOrClose, st)
     | TLBrack \<Rightarrow> Some (WantValueOrClose, FArr [] # st)
     | TString s \<Rightarrow> Some (Done (JStr s), st)
     | TNumber n \<Rightarrow> Some (Done (JNum n), st)
     | TTrue \<Rightarrow> Some (Done (JBool True), st)
     | TFalse \<Rightarrow> Some (Done (JBool False), st)
     | TNull \<Rightarrow> Some (Done JNull, st)
     | _ \<Rightarrow> None)"

definition parseStep :: "pmode \<Rightarrow> frame list \<Rightarrow> token \<Rightarrow> (pmode \<times> frame list) option" where
  "parseStep m st t =
    (case m of
       WantValue \<Rightarrow> startValue st t
     | WantValueOrClose \<Rightarrow>
         (if t = TRBrack then Some (Done (JArr []), tl st) else startValue st t)
     | WantKeyOrClose \<Rightarrow>
         (case t of
            TRBrace \<Rightarrow> Some (Done (JObj []), st)
          | TString k \<Rightarrow> Some (WantColon [] k, st)
          | _ \<Rightarrow> None)
     | WantKey members \<Rightarrow>
         (case t of TString k \<Rightarrow> Some (WantColon members k, st) | _ \<Rightarrow> None)
     | WantColon members k \<Rightarrow>
         (if t = TColon then Some (WantValue, FObj members k # st) else None)
     | Done v \<Rightarrow>
         (case st of
            [] \<Rightarrow> None
          | FArr items # st' \<Rightarrow>
              (if t = TComma then Some (WantValue, FArr (items @ [v]) # st')
               else if t = TRBrack then Some (Done (JArr (items @ [v])), st')
               else None)
          | FObj members k # st' \<Rightarrow>
              (if t = TComma then Some (WantKey (upsert k v members), st')
               else if t = TRBrace then Some (Done (JObj (upsert k v members)), st')
               else None)))"

fun parseTokens :: "pmode \<Rightarrow> frame list \<Rightarrow> token list \<Rightarrow> json option" where
  "parseTokens m st [] = (case (m, st) of (Done v, []) \<Rightarrow> Some v | _ \<Rightarrow> None)"
| "parseTokens m st (t # ts) =
    (case parseStep m st t of
       None \<Rightarrow> None
     | Some p \<Rightarrow> parseTokens (fst p) (snd p) ts)"

definition JSONparse :: "string \<Rightarrow> json option" where
  \<comment> \<open>\<open>None\<close> is the SyntaxError\<close>
  "JSONparse s =
    (case lexAll LStart s of None \<Rightarrow> None | Some ts \<Rightarrow> parseTokens WantValue [] ts)"

section \<open>Loose JSON (parseLooseJson)\<close>

definition DQ :: char where
  "DQ = CHR 0x22"

definition SQ :: char where
  "SQ = CHR 0x27"

definition wordChars :: string where
  "wordChars = ''abcdefghijklmnopqrstuvwxyzABCDEFGHIJKLMNOPQRSTUVWXYZ0123456789_''"

definition locatorValue :: re where
  \<comment> \<open>\<open>[^,\}\n\r]+\<close>\<close>
  "locatorValue = Plus (NotSet [CHR '','', CHR ''}'', CHR 0x0A, CHR 0x0D])"

definition locatorRegex :: re where
  \<comment> \<open>\<open>/(["']?locator["']?\s*:\s*)(xpath=[^,\}\n\r]+|css=[^,\}\n\r]+|chain=[^,\}\n\r]+)/g\<close>\<close>
  "locatorRegex =
    Seq (Group 1 (Seq (Opt (CharSet [DQ, SQ])) (Seq (Str ''locator'') (Seq (Opt (CharSet [DQ, SQ]))
                   (Seq (Star Space) (Seq (Lit CHR '':'') (Star Space)))))))
        (Group 2 (Alt (Seq (Str ''xpath='') locatorValue)
                 (Alt (Seq (Str ''css='') locatorValue)
                      (Seq (Str ''chain='') locatorValue))))"

function showNat :: "nat \<Rightarrow> string" where
  "showNat n =
    (if n < 10 then [''0123456789'' ! n] else showNat (n div 10) @ [''0123456789'' ! (n mod 10)])"
  by pat_completeness auto
termination
  by (relation "measure id") auto

declare showNat.simps [simp del]

definition maskLocators :: "string \<Rightarrow> string \<times> string list" where
  \<comment> \<open>the first \<open>replace\<close>: each locator value is pushed, quoted and trimmed, and a numbered
      placeholder takes its place\<close>
  "maskLocators wrappedStr =
    regexReplaceAll locatorRegex
      (\<lambda>locatorPlaceholders m k.
         (groupText k 1 @ ''__LOCATOR_PLACEHOLDER_'' @ showNat (length locatorPlaceholders) @ ''__'',
          locatorPlaceholders @ [[DQ] @ trim (groupText k 2) @ [DQ]]))
      [] [] wrappedStr"

definition singleQuoteRegex :: re where
  \<comment> \<open>\<open>/:\s*'((?:[^']|\\')*)'/g\<close>\<close>
  "singleQuoteRegex =
    Seq (Lit CHR '':'') (Seq (Star Space) (Seq (Lit SQ)
      (Seq (Group 1 (Star (Alt (NotSet [SQ]) (Seq (Lit CHR 0x5C) (Lit SQ))))) (Lit SQ))))"

definition bareKeyRegex :: re where
  \<comment> \<open>\<open>/([{,]\s*)([a-zA-Z0-9_]+)\s*:/g\<close>\<close>
  "bareKeyRegex =
    Seq (Group 1 (Seq (CharSet ''{,'') (Star Space)))
      (Seq (Group 2 (Plus (CharSet wordChars))) (Seq (Star Space) (Lit CHR '':'')))"

definition literalRegex :: "string \<Rightarrow> re" where
  \<comment> \<open>\<open>/:\s*True\b/g\<close> and its two siblings\<close>
  "literalRegex word = Seq (Lit CHR '':'') (Seq (Star Space) (Seq (Str word) WordBoundary))"

definition trailingCommaRegex :: re where
  \<comment> \<open>\<open>/,(\s*[}\]])/g\<close>\<close>
  "trailingCommaRegex = Seq (Lit CHR '','') (Group 1 (Seq (Star Space) (CharSet ''}]'')))"

definition convertSingleQuotes :: "string \<Rightarrow> string" where
  "convertSingleQuotes s =
    regexReplace singleQuoteRegex (\<lambda>m k. '': '' @ [DQ] @ groupText k 1 @ [DQ]) s"

definition quoteBareKeys :: "string \<Rightarrow> string" where
  "quoteBareKeys s =
    regexReplace bareKeyRegex (\<lambda>m k. groupText k 1 @ [DQ] @ groupText k 2 @ [DQ] @ '':'') s"

definition replaceLiteral :: "string \<Rightarrow> string \<Rightarrow> string \<Rightarrow> string" where
  "replaceLiteral word replacement s = regexReplace (literalRegex word) (\<lambda>m k. replacement) s"

definition stripTrailingCommas :: "string \<Rightarrow> string" where
  "stripTrailingCommas s = regexReplace trailingCommaRegex (\<lambda>m k. groupText k 1) s"

definition normalizeLoose :: "string \<Rightarrow> string" where
  \<comment> \<open>the chain of five \<open>replace\<close> calls that builds \<open>normalized\<close>\<close>
  "normalizeLoose maskedStr =
    stripTrailingCommas
      (replaceLiteral ''None'' '': null''
        (replaceLiteral ''False'' '': false''
          (replaceLiteral ''True'' '': true'' (quoteBareKeys maskedStr))))"

fun getSubstitution :: "string \<Rightarrow> string \<Rightarrow> string \<Rightarrow> string \<Rightarrow> string" where
  \<comment> \<open>the \<open>$\<close> patterns a replacement string may hold when the pattern is a string\<close>
  "getSubstitution matched pre post [] = []"
| "getSubstitution matched pre post [c] = [c]"
| "getSubstitution matched pre post (c # d # cs) =
    (if c = CHR ''$'' \<and> d = CHR ''$'' then CHR ''$'' # getSubstitution matched pre post cs
     else if c = CHR ''$'' \<and> d = CHR ''&'' then matched @ getSubstitution matched pre post cs
     else if c = CHR ''$'' \<and> d = CHR 0x60 then pre @ getSubstitution matched pre post cs
     else if c = CHR ''$'' \<and> d = SQ then post @ getSubstitution matched pre post cs
     else c # getSubstitution matched pre post (d # cs))"

fun replaceFirst :: "string \<Rightarrow> string \<Rightarrow> string \<Rightarrow> string \<Rightarrow> string" where
  \<comment> \<open>\<open>s.replace(p, v)\<close> with a string pattern; \<open>pre\<close> is the text already passed (reversed)\<close>
  "replaceFirst p v pre [] = (if p = [] then getSubstitution [] (rev pre) [] v else [])"
| "replaceFirst p v pre (c # cs) =
    (if startsWith (c # cs) p
     then getSubstitution p (rev pre) (drop (length p) (c # cs)) v @ drop (length p) (c # cs)
     else c # replaceFirst p v (c # pre) cs)"

fun restoreLocators :: "nat \<Rightarrow> string list \<Rightarrow> string \<Rightarrow> string" where
  \<comment> \<open>\<open>locatorPlaceholders.forEach((value, index) => ...)\<close>\<close>
  "restoreLocators index [] normalized = normalized"
| "restoreLocators index (v # vs) normalized =
    restoreLocators (Suc index) vs
      (replaceFirst (''__LOCATOR_PLACEHOLDER_'' @ showNat index @ ''__'') v [] normalized)"

definition looseToJson :: "string \<Rightarrow> string" where
  \<comment> \<open>the body of the \<open>try\<close> up to the text handed to \<open>JSON.parse\<close>\<close>
  "looseToJson wrappedStr =
    (case maskLocators wrappedStr of
       (masked, locatorPlaceholders) \<Rightarrow>
         restoreLocators 0 locatorPlaceholders (normalizeLoose (convertSingleQuotes masked)))"

definition parseLooseJson :: "string \<Rightarrow> error + json" where
  "parseLooseJson str =
    (if str = [] \<or> trim str = [] \<or> trim str = [DQ, DQ] then Inr (JObj [])
     else
       let needsBraces = (\<not> startsWith (trim str) ''{'' \<or> \<not> endsWith (trim str) ''}'');
           wrappedStr = (if needsBraces then ''{'' @ str @ ''}'' else str)
       in (case JSONparse (looseToJson wrappedStr) of
             None \<Rightarrow> Inl (ParseFailed str)
           | Some v \<Rightarrow> Inr v))"

section \<open>Waiting for text (waitForTextAtLocation)\<close>

text \<open>
  The options object after \<open>parseLooseJson\<close>, each option of its documented type; an absent
  option takes the default of the destructuring pattern.
\<close>

record waitOptions =
  optActionTimeout :: "jsnum option"
  optPartialMatch :: "bool option"
  optIgnoreCase :: "bool option"
  optScreenshot :: "bool option"
  optScreenshotText :: "string option"
  optScreenshotFullPage :: "bool option"
  optPattern :: "string option"

text \<open>
  The browser and the clock as the wait sees them: the value of \<open>Date.now()\<close> at \<open>const start\<close>
  and at the \<open>i\<close>-th test of the loop condition; what \<open>target.innerText()\<close> returns or throws
  when called at a given clock value; what the Cucumber world's \<open>attach\<close> throws, if the world
  has one; whether attaching through the Playwright runner fails; what \<open>page.screenshot()\<close>
  throws.
\<close>

record driver =
  startTime :: int
  pollTime :: "nat \<Rightarrow> int"
  innerTextAt :: "handle \<Rightarrow> int \<Rightarrow> error + string"
  worldAttach :: "error option option"
  playwrightAttachFails :: bool
  pageScreenshot :: "error option"

definition isPlaywrightRunner :: "world \<Rightarrow> bool" where
  "isPlaywrightRunner w = (processEnv w ''TEST_RUNNER'' = Some ''playwright'')"

definition isCucumberRunner :: "world \<Rightarrow> bool" where
  "isCucumberRunner w = (processEnv w ''TEST_RUNNER'' = Some ''cucumber'')"

definition attachLog :: "driver \<Rightarrow> bool \<Rightarrow> world \<Rightarrow> (error + unit) \<times> world" where
  \<comment> \<open>\<open>attachLog(message, "text/plain")\<close>; of the message only its being empty matters\<close>
  "attachLog d emptyMessage w =
    (if emptyMessage then (Inr (), warn AttachLogEmptyMessage w)
     else if isCucumberRunner w then
       (case worldAttach d of
          None \<Rightarrow> (Inr (), warn NoWorldAttach w)
        | Some None \<Rightarrow> (Inr (), w)
        | Some (Some e) \<Rightarrow> (Inl e, w))
     else if isPlaywrightRunner w then (Inr (), w)
     else (Inr (), warn UnknownRunner w))"

definition processScreenshot :: "driver \<Rightarrow> bool \<Rightarrow> bool \<Rightarrow> world \<Rightarrow> (error + unit) \<times> world" where
  "processScreenshot d hasPage shouldTake w =
    (if \<not> shouldTake then (Inr (), w)
     else if \<not> hasPage then (Inl PageNotInitialized, w)
     else
       (case pageScreenshot d of
          Some e \<Rightarrow> (Inl e, w)
        | None \<Rightarrow>
            (Inr (),
             if isCucumberRunner w then
               (case worldAttach d of
                  None \<Rightarrow> warn NoWorldAttach w
                | Some None \<Rightarrow> w
                | Some (Some e) \<Rightarrow> warn ScreenshotAttachError w)
             else if isPlaywrightRunner w then
               (if playwrightAttachFails d then warn ScreenshotAttachError w else w)
             else warn UnknownRunner w)))"

definition lessThanNumber :: "int \<Rightarrow> jsnum \<Rightarrow> bool" where
  \<comment> \<open>\<open>n < t\<close> for an integer \<open>n\<close> and a number \<open>t\<close>\<close>
  "lessThanNumber n t =
    (case t of NaN \<Rightarrow> False | Finite r \<Rightarrow> of_int n < r
     | PlusInfinity \<Rightarrow> True | MinusInfinity \<Rightarrow> False)"

definition innerText :: "driver \<Rightarrow> handle \<Rightarrow> int \<Rightarrow> error + string" where
  \<comment> \<open>a method call on \<open>undefined\<close> throws\<close>
  "innerText d target t =
    (case target of UndefinedHandle \<Rightarrow> Inl TypeError | _ \<Rightarrow> innerTextAt d target t)"

definition textMatches :: "bool \<Rightarrow> bool \<Rightarrow> string \<Rightarrow> string \<Rightarrow> bool" where
  \<comment> \<open>the comparison inside the loop, on the trimmed text read\<close>
  "textMatches partialMatch ignoreCase expectedText actualText =
    (let expected = (if \<not> ignoreCase then toLowerCase expectedText else expectedText);
         actual = (if \<not> ignoreCase then toLowerCase actualText else actualText)
     in if partialMatch then includesStr actual expected else actual = expected)"

text \<open>
  The \<open>while\<close> loop, from its \<open>i\<close>-th test on. It ends with \<open>found\<close> and \<open>lastActual\<close>, or with
  what \<open>innerText\<close> threw; \<open>None\<close> means the fuel ran out with the loop still running.
\<close>

fun waitLoop ::
  "driver \<Rightarrow> handle \<Rightarrow> string \<Rightarrow> jsnum \<Rightarrow> bool \<Rightarrow> bool \<Rightarrow> nat \<Rightarrow> nat \<Rightarrow> string
    \<Rightarrow> (error + bool \<times> string) option" where
  "waitLoop d target expectedText timeout partialMatch ignoreCase 0 i lastActual = None"
| "waitLoop d target expectedText timeout partialMatch ignoreCase (Suc fuel) i lastActual =
    (if lessThanNumber (pollTime d i - startTime d) timeout then
       (case innerText d target (pollTime d i) of
          Inl e \<Rightarrow> Some (Inl e)
        | Inr txt \<Rightarrow>
            if textMatches partialMatch ignoreCase expectedText (trim txt)
            then Some (Inr (True, trim txt))
            else waitLoop d target expectedText timeout partialMatch ignoreCase fuel (Suc i)
                   (trim txt))
     else Some (Inr (False, lastActual)))"

definition resolveActionTimeout :: "waitOptions \<Rightarrow> world \<Rightarrow> jsnum \<times> world" where
  \<comment> \<open>\<open>actionTimeout = Number(vars.getConfigValue("testExecution.actionTimeout"))\<close>, the default
      being evaluated only when the option is absent\<close>
  "resolveActionTimeout opts w =
    (case optActionTimeout opts of
       Some t \<Rightarrow> (t, w)
     | None \<Rightarrow>
         (case getConfigValue ''testExecution.actionTimeout'' False w of
            (v, w') \<Rightarrow> (Number v, w')))"

definition resolveTarget ::
  "externals \<Rightarrow> string + handle \<Rightarrow> waitOptions \<Rightarrow> jsnum \<Rightarrow> world \<Rightarrow> (error + handle) \<times> world" where
  "resolveTarget x field opts timeout w =
    (case field of
       Inl selector \<Rightarrow> webLocResolver x (Some ''text'') selector (optPattern opts) (Some timeout) [] w
     | Inr locator \<Rightarrow> (Inr locator, w))"

definition partialMatchOption :: "waitOptions \<Rightarrow> bool" where
  \<comment> \<open>\<open>partialMatch = false\<close>\<close>
  "partialMatchOption opts = (case optPartialMatch opts of None \<Rightarrow> False | Some b \<Rightarrow> b)"

definition ignoreCaseOption :: "waitOptions \<Rightarrow> bool" where
  \<comment> \<open>\<open>ignoreCase = true\<close>\<close>
  "ignoreCaseOption opts = (case optIgnoreCase opts of None \<Rightarrow> True | Some b \<Rightarrow> b)"

definition screenshotOption :: "waitOptions \<Rightarrow> bool" where
  \<comment> \<open>\<open>screenshot = false\<close>\<close>
  "screenshotOption opts = (case optScreenshot opts of None \<Rightarrow> False | Some b \<Rightarrow> b)"

definition waitForTextAtLocation ::
  "externals \<Rightarrow> driver \<Rightarrow> bool \<Rightarrow> string + handle \<Rightarrow> string \<Rightarrow> waitOptions \<Rightarrow> nat \<Rightarrow> world
    \<Rightarrow> ((error + unit) \<times> world) option" where
  \<comment> \<open>\<open>hasPage\<close> tells whether \<open>page\<close> is truthy; the reporting step that wraps the body under
      the Playwright runner runs it and hands its outcome on\<close>
  "waitForTextAtLocation x d hasPage field expectedText opts fuel w =
    (case resolveActionTimeout opts w of
       (timeout, w0) \<Rightarrow>
         if \<not> hasPage then Some (Inl PageNotInitialized, w0)
         else
           (case resolveTarget x field opts timeout w0 of
              (Inl e, w1) \<Rightarrow> Some (Inl e, w1)
            | (Inr target, w1) \<Rightarrow>
                (case waitLoop d target expectedText timeout (partialMatchOption opts)
                        (ignoreCaseOption opts) fuel 0 [] of
                   None \<Rightarrow> None
                 | Some (Inl e) \<Rightarrow> Some (Inl e, w1)
                 | Some (Inr (found, lastActual)) \<Rightarrow>
                     (case attachLog d False w1 of
                        (Inl e, w2) \<Rightarrow> Some (Inl e, w2)
                      | (Inr u, w2) \<Rightarrow>
                          if \<not> found
                          then Some (Inl (TextNotFound expectedText field timeout lastActual), w2)
                          else Some (processScreenshot d hasPage (screenshotOption opts) w2)))))"

text \<open>What the polls of a run see, for stating the properties of the loop.\<close>

definition pollInTime :: "driver \<Rightarrow> jsnum \<Rightarrow> nat \<Rightarrow> bool" where
  \<comment> \<open>the \<open>i\<close>-th test of the loop condition holds\<close>
  "pollInTime d timeout i = lessThanNumber (pollTime d i - startTime d) timeout"

definition pollReads :: "driver \<Rightarrow> handle \<Rightarrow> nat \<Rightarrow> string option" where
  \<comment> \<open>the trimmed text the \<open>i\<close>-th poll reads, if \<open>innerText\<close> does not throw there\<close>
  "pollReads d target i =
    (case innerText d target (pollTime d i) of Inl e \<Rightarrow> None | Inr txt \<Rightarrow> Some (trim txt))"

definition pollMisses ::
  "driver \<Rightarrow> handle \<Rightarrow> string \<Rightarrow> jsnum \<Rightarrow> bool \<Rightarrow> bool \<Rightarrow> nat \<Rightarrow> bool" where
  "pollMisses d target expectedText timeout partialMatch ignoreCase i =
    (pollInTime d timeout i \<and>
     (case pollReads d target i of
        None \<Rightarrow> False
      | Some actual \<Rightarrow> \<not> textMatches partialMatch ignoreCase expectedText actual))"

definition pollHits ::
  "driver \<Rightarrow> handle \<Rightarrow> string \<Rightarrow> jsnum \<Rightarrow> bool \<Rightarrow> bool \<Rightarrow> nat \<Rightarrow> bool" where
  "pollHits d target expectedText timeout partialMatch ignoreCase i =
    (pollInTime d timeout i \<and>
     (case pollReads d target i of
        None \<Rightarrow> False
      | Some actual \<Rightarrow> textMatches partialMatch ignoreCase expectedText actual))"

definition lastObserved :: "driver \<Rightarrow> handle \<Rightarrow> nat \<Rightarrow> string" where
  \<comment> \<open>\<open>lastActual\<close> when the loop reaches its \<open>k\<close>-th test\<close>
  "lastObserved d target k =
    (case k of
       0 \<Rightarrow> []
     | Suc j \<Rightarrow> (case pollReads d target j of None \<Rightarrow> [] | Some actual \<Rightarrow> actual))"

definition noOptions :: waitOptions where
  "noOptions = \<lparr>optActionTimeout = None, optPartialMatch = None, optIgnoreCase = None, optScreenshot = None,
                optScreenshotText = None, optScreenshotFullPage = None, optPattern = None\<rparr>"

section \<open>Concrete inputs\<close>

text \<open>Concrete worlds used by the closed theorems below.\<close>

definition envEmptyWorld :: world where
  \<comment> \<open>\<open>PLAYQ__a__b__c\<close> is set to the empty string and \<open>config.a.b.c\<close> is stored\<close>
  "envEmptyWorld = emptyWorld\<lparr>storedVars := [''config.a.b.c'' \<mapsto> ''stored''],
                                processEnv := [''PLAYQ__a__b__c'' \<mapsto> '''']\<rparr>"

definition envSetWorld :: world where
  \<comment> \<open>\<open>PLAYQ__a__b__c\<close> is set to \<open>firefox\<close> and \<open>config.a.b.c\<close> is stored\<close>
  "envSetWorld = emptyWorld\<lparr>storedVars := [''config.a.b.c'' \<mapsto> ''stored''],
                              processEnv := [''PLAYQ__a__b__c'' \<mapsto> ''firefox'']\<rparr>"

definition sampleExternals :: externals where
  \<comment> \<open>as \<open>noExternals\<close>, with a locator namespace that holds \<open>login.home.user\<close> only\<close>
  "sampleExternals = noExternals
     \<lparr>globalLoc := Some [''login'' \<mapsto> [''home'' \<mapsto> [''user'' \<mapsto> Inr (Produced ''login.home.user'')]]]\<rparr>"

text \<open>The option string of C6 and the texts its stages produce.\<close>

definition claimInput :: string where
  \<comment> \<open>\<open>{name: "x", locator: xpath=//div[@id=1], count: 3}\<close>\<close>
  "claimInput = ''{name: '' @ [DQ] @ ''x'' @ [DQ] @ '', locator: xpath=//div[@id=1], count: 3}''"

definition maskedText :: string where
  \<comment> \<open>\<open>{name: "x", locator: __LOCATOR_PLACEHOLDER_0__, count: 3}\<close>\<close>
  "maskedText =
    ''{name: '' @ [DQ] @ ''x'' @ [DQ] @ '', locator: __LOCATOR_PLACEHOLDER_0__, count: 3}''"

definition quotedText :: string where
  \<comment> \<open>\<open>{"name": "x", "locator": __LOCATOR_PLACEHOLDER_0__, "count": 3}\<close>\<close>
  "quotedText =
    ''{'' @ [DQ] @ ''name'' @ [DQ] @ '': '' @ [DQ] @ ''x'' @ [DQ] @ '', '' @ [DQ] @ ''locator''
      @ [DQ] @ '': __LOCATOR_PLACEHOLDER_0__, '' @ [DQ] @ ''count'' @ [DQ] @ '': 3}''"

definition strictText :: string where
  \<comment> \<open>\<open>{"name": "x", "locator": "xpath=//div[@id=1]", "count": 3}\<close>\<close>
  "strictText =
    ''{'' @ [DQ] @ ''name'' @ [DQ] @ '': '' @ [DQ] @ ''x'' @ [DQ] @ '', '' @ [DQ] @ ''locator''
      @ [DQ] @ '': '' @ [DQ] @ ''xpath=//div[@id=1]'' @ [DQ] @ '', '' @ [DQ] @ ''count'' @ [DQ]
      @ '': 3}''"

text \<open>
  The scenario of C9: the action timeout is configured as \<open>5000\<close>, the runner is Playwright, the
  clock starts at 0 and the loop tests its condition every 300 ms; the page text is read at
  those instants.
\<close>

definition configuredWorld :: world where
  "configuredWorld = emptyWorld
     \<lparr>storedVars := [''config.testExecution.actionTimeout'' \<mapsto> ''5000''],
      processEnv := [''TEST_RUNNER'' \<mapsto> ''playwright'']\<rparr>"

definition resolvedWorld :: world where
  \<comment> \<open>\<open>configuredWorld\<close> after the resolver has looked up its two engine switches\<close>
  "resolvedWorld = configuredWorld
     \<lparr>loggedMissingKeys := {''config.patternIq.enable'', ''config.smartAi.enable''}\<rparr>"

definition partialOptions :: waitOptions where
  "partialOptions = noOptions\<lparr>optPartialMatch := Some True\<rparr>"

definition textAppearingAt :: "int \<Rightarrow> int \<Rightarrow> string" where
  \<comment> \<open>the location shows \<open>Loading\<close> until \<open>t0\<close> and the welcome text from then on\<close>
  "textAppearingAt t0 t = (if t0 \<le> t then ''Welcome to PlayQ'' else ''Loading'')"

definition pollingDriver :: "(int \<Rightarrow> string) \<Rightarrow> driver" where
  "pollingDriver pageText =
     \<lparr>startTime = 0, pollTime = (\<lambda>i. 300 * int i), innerTextAt = (\<lambda>h t. Inr (pageText t)),
      worldAttach = None, playwrightAttachFails = False, pageScreenshot = None\<rparr>"

section \<open>Properties of the variable store\<close>

lemma storedVars_updateVarStaticJson:
  "storedVars (snd (updateVarStaticJson key v w)) = storedVars w"
  by (simp add: updateVarStaticJson_def warn_def Let_def split: staticFile.splits)

lemma storedVars_setValue:
  "k \<noteq> ''__proto__'' \<Longrightarrow> storedVars (snd (setValue k v w)) = (storedVars w)(k \<mapsto> v)"
  by (simp add: setValue_def Let_def storedVars_updateVarStaticJson)



text \<open>
  C2, as stated, fails: with \<open>PLAYQ__a__b__c\<close> set to the empty string, \<open>getConfigValue("a.b.c")\<close>
  returns the value stored under \<open>config.a.b.c\<close>, not the variable's value.
\<close>

theorem getConfigValue_empty_env_counterexample:
  "processEnv envEmptyWorld (''PLAYQ__'' @ replaceDots ''a.b.c'') = Some ''''
   \<and> fst (getConfigValue ''a.b.c'' False envEmptyWorld) = ''stored''"
  by (simp add: envEmptyWorld_def emptyWorld_def getConfigValue_def replaceDots_def trim_def
      isWhiteSpace_def)

text \<open>
  C2 (amended): for every key \<open>k\<close>, if the environment variable named \<open>PLAYQ__\<close> followed by the
  trimmed \<open>k\<close> with each \<open>.\<close> replaced by \<open>__\<close> is set to a non-empty value, then
  \<open>getConfigValue(k)\<close> returns that value and leaves the store untouched, whatever is stored
  under \<open>config.<k>\<close> and whatever \<open>ifEmpty\<close> is.
\<close>

theorem getConfigValue_env_override:
  assumes "processEnv w (''PLAYQ__'' @ replaceDots (trim k)) = Some v" and "v \<noteq> []"
  shows "getConfigValue k ifEmpty w = (v, w)"
  using assms by (simp add: getConfigValue_def)

theorem getConfigValue_env_override_witness:
  "processEnv envSetWorld (''PLAYQ__'' @ replaceDots (trim ''a.b.c'')) = Some ''firefox''
   \<and> ''firefox'' \<noteq> []
   \<and> storedVars envSetWorld ''config.a.b.c'' = Some ''stored''
   \<and> getConfigValue ''a.b.c'' False envSetWorld = (''firefox'', envSetWorld)"
proof -
  have h: "processEnv envSetWorld (''PLAYQ__'' @ replaceDots (trim ''a.b.c'')) = Some ''firefox''"
    by (simp add: envSetWorld_def emptyWorld_def replaceDots_def trim_def isWhiteSpace_def)
  have s: "storedVars envSetWorld ''config.a.b.c'' = Some ''stored''"
    by (simp add: envSetWorld_def emptyWorld_def)
  show ?thesis
    using h s getConfigValue_env_override [OF h, of False] by simp
qed

text \<open>
  C5: with nothing stored and no override, the first call \<open>getConfigValue("a.b", true)\<close> returns
  the empty string and the second call returns the literal \<open>config.a.b\<close>.
\<close>

theorem getConfigValue_ifEmpty_second_call:
  "fst (getConfigValue ''a.b'' True emptyWorld) = []
   \<and> fst (getConfigValue ''a.b'' True (snd (getConfigValue ''a.b'' True emptyWorld)))
       = ''config.a.b''"
  by (simp add: emptyWorld_def getConfigValue_def replaceDots_def trim_def isWhiteSpace_def
      Let_def)

text \<open>
  C7, as stated, fails: after \<open>setValue(" a", "v")\<close> the call \<open>getValue(" a")\<close> trims its key,
  misses, and returns \<open>a\<close>.
\<close>

theorem setValue_getValue_untrimmed_counterexample:
  "fst (getValue '' a'' False (snd (setValue '' a'' ''v'' emptyWorld))) = Text ''a''"
  by (simp add: getValue_def setValue_def emptyWorld_def trim_def isWhiteSpace_def
      startsWith_def warn_def objectPrototypeKeys_def Let_def)

text \<open>
  C7 (amended): for every non-empty key \<open>k\<close> that has no leading or trailing white space, does
  not begin with \<open>env.\<close> and is not \<open>__proto__\<close>, and every string \<open>v\<close>, \<open>getValue(k)\<close> on the
  store left by \<open>setValue(k, v)\<close> returns \<open>v\<close>.
\<close>

theorem setValue_getValue:
  assumes "k \<noteq> []" and "trim k = k" and "\<not> startsWith k ''env.''" and "k \<noteq> ''__proto__''"
  shows "fst (getValue k False (snd (setValue k v w))) = Text v"
  using assms by (simp add: getValue_def Let_def storedVars_setValue)

theorem setValue_getValue_witness:
  "''var.static.centre'' \<noteq> [] \<and> trim ''var.static.centre'' = ''var.static.centre''
   \<and> \<not> startsWith ''var.static.centre'' ''env.''
   \<and> ''var.static.centre'' \<noteq> ''__proto__''
   \<and> fst (getValue ''var.static.centre'' False
            (snd (setValue ''var.static.centre'' ''X1'' emptyWorld))) = Text ''X1''"
proof -
  have t: "trim ''var.static.centre'' = ''var.static.centre''"
    by (simp add: trim_def isWhiteSpace_def)
  have e: "\<not> startsWith ''var.static.centre'' ''env.''"
    by (simp add: startsWith_def)
  show ?thesis
    using t e setValue_getValue [OF _ t e, of "''X1''" emptyWorld] by simp
qed

section \<open>Properties of the locator resolver\<close>

lemma splitOn_no_separator: "d \<notin> set a \<Longrightarrow> splitOn d a = [a]"
  by (induction a) auto

lemma splitOn_append: "d \<notin> set a \<Longrightarrow> splitOn d (a @ d # b) = a # splitOn d b"
  by (induction a) auto

lemma startsWith_append: "startsWith (p @ r) p"
  by (simp add: startsWith_def)

lemma startsWithD: "startsWith s p \<Longrightarrow> \<exists>r. s = p @ r"
  unfolding startsWith_def by (metis append_take_drop_id)

lemma startsWith_Cons: "startsWith (c # s) (d # p) = (c = d \<and> startsWith s p)"
  by (simp add: startsWith_def)

lemma startsWith_Nil: "startsWith s []"
  by (simp add: startsWith_def)

lemma hd_splitOn_prefix:
  assumes "startsWith s (a @ [d])" and "d \<notin> set a"
  shows "hd (splitOn d s) = a"
proof -
  from startsWithD[OF assms(1)] obtain r where "s = a @ d # r" by auto
  with assms(2) show ?thesis by (simp add: splitOn_append)
qed

lemma resource_locator_branch:
  assumes "startsWith s ''loc.''"
  shows "webLocResolver x ty s op t r w = resolveResource x s w"
proof -
  from startsWithD[OF assms] obtain q where s: "s = ''loc.'' @ q" by auto
  have "\<not> isPlaywrightPrefixed s"
    by (simp add: s isPlaywrightPrefixed_def startsWith_Cons)
  moreover have "\<not> isPlaywrightChainedPrefixed s"
    by (simp add: s isPlaywrightChainedPrefixed_def startsWith_Cons)
  moreover have "isResourceLocator s"
    using assms by (simp add: isResourceLocator_def)
  ultimately show ?thesis by (simp add: webLocResolver_def)
qed

text \<open>
  C1, as stated, fails: with no global locator namespace at all, the bare reference
  \<open>loc.login.home.submit\<close> does not fall through to the engines or the default locator; the
  resolver throws the unknown-source error.
\<close>

theorem bare_loc_miss_throws_counterexample:
  "webLocResolver noExternals None ''loc.login.home.submit'' None None '''' emptyWorld
     = (Inl (UnknownLocatorSource ''login''), emptyWorld)"
  by (simp add: webLocResolver_def isPlaywrightPrefixed_def isPlaywrightChainedPrefixed_def
      isResourceLocator_def startsWith_def resolveResource_def partAt_def locLookup_def
      noExternals_def)

text \<open>
  C1 (amended): let \<open>file\<close>, \<open>page\<close> and \<open>field\<close> hold no dot and let the global locator namespace
  lack the entry \<open>[file][page][field]\<close> at some level. Then the bare selector
  \<open>loc.<file>.<page>.<field>\<close> (\<open>file\<close> being neither \<open>ts\<close> nor \<open>json\<close>) makes \<open>webLocResolver\<close>
  throw the unknown-source error naming \<open>file\<close>, with no engine or default locator tried; and
  the explicit selector \<open>loc.ts.<file>.<page>.<field>\<close> makes it throw the unknown-source error
  naming \<open>ts\<close>, provided the namespace has no entry \<open>[ts][file][page]\<close> either (the bare reading
  of the same selector, which the code tries next).
\<close>

theorem resource_locator_miss_throws:
  assumes "CHR ''.'' \<notin> set file" and "CHR ''.'' \<notin> set page" and "CHR ''.'' \<notin> set field"
    and "locLookup x file page field = None"
  shows "(file \<noteq> ''ts'' \<and> file \<noteq> ''json''
           \<longrightarrow> webLocResolver x ty (''loc.'' @ file @ ''.'' @ page @ ''.'' @ field) op t r w
               = (Inl (UnknownLocatorSource file), w))
       \<and> (locLookup x ''ts'' file page = None
           \<longrightarrow> webLocResolver x ty (''loc.ts.'' @ file @ ''.'' @ page @ ''.'' @ field) op t r w
               = (Inl (UnknownLocatorSource ''ts''), w))"
proof (intro conjI impI)
  define rest where "rest = file @ ''.'' @ page @ ''.'' @ field"
  have sr: "splitOn CHR ''.'' rest = [file, page, field]"
    using assms(1-3) by (simp add: rest_def splitOn_append splitOn_no_separator)
  have pb: "splitOn CHR ''.'' (''loc.'' @ rest) = [''loc'', file, page, field]"
    using splitOn_append[of "CHR ''.''" "''loc''" rest] by (simp add: sr)
  have pt: "splitOn CHR ''.'' (''loc.ts.'' @ rest) = [''loc'', ''ts'', file, page, field]"
    using splitOn_append[of "CHR ''.''" "''loc''" "''ts.'' @ rest"]
          splitOn_append[of "CHR ''.''" "''ts''" rest] by (simp add: sr)
  {
    assume f: "file \<noteq> ''ts'' \<and> file \<noteq> ''json''"
    have nj: "\<not> startsWith (''loc.'' @ rest) ''loc.json.''"
    proof
      assume "startsWith (''loc.'' @ rest) ''loc.json.''"
      then have "startsWith rest (''json'' @ [CHR ''.''])" by (simp add: startsWith_Cons)
      then have "hd (splitOn CHR ''.'' rest) = ''json''" by (rule hd_splitOn_prefix) simp
      with f show False by (simp add: sr)
    qed
    have nt: "\<not> startsWith (''loc.'' @ rest) ''loc.ts.''"
    proof
      assume "startsWith (''loc.'' @ rest) ''loc.ts.''"
      then have "startsWith rest (''ts'' @ [CHR ''.''])" by (simp add: startsWith_Cons)
      then have "hd (splitOn CHR ''.'' rest) = ''ts''" by (rule hd_splitOn_prefix) simp
      with f show False by (simp add: sr)
    qed
    have "startsWith (''loc.'' @ rest) ''loc.''" by (rule startsWith_append)
    then have "webLocResolver x ty (''loc.'' @ rest) op t r w
                 = resolveResource x (''loc.'' @ rest) w"
      by (rule resource_locator_branch)
    also have "\<dots> = (Inl (UnknownLocatorSource file), w)"
      using nj nt assms(4) by (simp add: resolveResource_def pb partAt_def del: append.simps)
    finally show "webLocResolver x ty (''loc.'' @ file @ ''.'' @ page @ ''.'' @ field) op t r w
        = (Inl (UnknownLocatorSource file), w)"
      by (simp only: rest_def)
  }
  {
    assume l: "locLookup x ''ts'' file page = None"
    have nj: "\<not> startsWith (''loc.ts.'' @ rest) ''loc.json.''" by (simp add: startsWith_Cons)
    have st: "startsWith (''loc.ts.'' @ rest) ''loc.ts.''" by (rule startsWith_append)
    have "startsWith (''loc.ts.'' @ rest) ''loc.''" by (simp add: startsWith_Cons startsWith_Nil)
    then have "webLocResolver x ty (''loc.ts.'' @ rest) op t r w
                 = resolveResource x (''loc.ts.'' @ rest) w"
      by (rule resource_locator_branch)
    also have "\<dots> = (Inl (UnknownLocatorSource ''ts''), w)"
      using nj st assms(4) l by (simp add: resolveResource_def pt partAt_def del: append.simps)
    finally show "webLocResolver x ty (''loc.ts.'' @ file @ ''.'' @ page @ ''.'' @ field) op t r w
        = (Inl (UnknownLocatorSource ''ts''), w)"
      by (simp only: rest_def)
  }
qed

theorem resource_locator_miss_throws_witness:
  "locLookup sampleExternals ''login'' ''home'' ''submit'' = None
   \<and> locLookup sampleExternals ''login'' ''home'' ''user'' = Some (Inr (Produced ''login.home.user''))
   \<and> webLocResolver sampleExternals None ''loc.login.home.submit'' None None '''' emptyWorld
       = (Inl (UnknownLocatorSource ''login''), emptyWorld)
   \<and> webLocResolver sampleExternals None ''loc.ts.login.home.submit'' None None '''' emptyWorld
       = (Inl (UnknownLocatorSource ''ts''), emptyWorld)"
proof -
  have l: "locLookup sampleExternals ''login'' ''home'' ''submit'' = None"
    by (simp add: locLookup_def sampleExternals_def noExternals_def objectPrototypeKeys_def)
  have u: "locLookup sampleExternals ''login'' ''home'' ''user''
             = Some (Inr (Produced ''login.home.user''))"
    by (simp add: locLookup_def sampleExternals_def noExternals_def)
  have t: "locLookup sampleExternals ''ts'' ''login'' ''home'' = None"
    by (simp add: locLookup_def sampleExternals_def noExternals_def objectPrototypeKeys_def)
  show ?thesis
    using l u t
      resource_locator_miss_throws [of "''login''" "''home''" "''submit''" sampleExternals
        None None None "''''" emptyWorld]
    by simp
qed

text \<open>
  C3, as stated, fails: for the selector \<open>xpath=//div\<close> the prefix branch answers before the
  override pattern is looked at, and the resolver returns the driver's locator for \<open>//div\<close>.
\<close>

theorem no_check_after_prefix_counterexample:
  "webLocResolver noExternals (Some ''button'') ''xpath=//div'' (Some ''-no-check-'') None ''''
      emptyWorld
     = (Inr (PageLocator ''//div''), emptyWorld)"
  by (simp add: webLocResolver_def isPlaywrightPrefixed_def startsWith_def rawSelector_def)

text \<open>
  C3 (amended): with the override pattern \<open>-no-check-\<close>, \<open>webLocResolver\<close> returns the undefined
  handle and changes nothing (neither engine nor the default locator produces the result) for
  every selector that no earlier branch takes: one that is not engine-prefixed (\<open>xpath=\<close>, \<open>css=\<close>,
  \<open>chain=\<close>), is not taken for a raw XPath, CSS or chained selector and does not begin with
  \<open>loc.\<close>. For every other selector the earlier branch answers first, whatever the override
  pattern is: an \<open>xpath=\<close> or \<open>css=\<close> selector gives the page locator of the selector without its
  prefix, a \<open>chain=\<close> selector the page locator of what follows the prefix, a raw XPath, CSS or
  chained selector that does not begin with \<open>loc.\<close> the page locator of the selector itself, and
  a selector that begins with \<open>loc.\<close> what the resource lookup returns or throws.
\<close>

theorem no_check_returns_undefined:
  "(\<not> isPlaywrightPrefixed s \<and> \<not> isPlaywrightChainedPrefixed s
      \<and> \<not> isXPath s \<and> \<not> isCSS s \<and> \<not> isChained s \<and> \<not> isResourceLocator s
      \<longrightarrow> webLocResolver x ty s (Some ''-no-check-'') t r w = (Inr UndefinedHandle, w))
   \<and> (isPlaywrightPrefixed s
      \<longrightarrow> webLocResolver x ty s op t r w = (Inr (PageLocator (rawSelector s)), w))
   \<and> (\<not> isPlaywrightPrefixed s \<and> isPlaywrightChainedPrefixed s
      \<longrightarrow> webLocResolver x ty s op t r w = (Inr (PageLocator (chainSelector s)), w))
   \<and> (\<not> isPlaywrightPrefixed s \<and> \<not> isPlaywrightChainedPrefixed s
        \<and> (isXPath s \<or> isCSS s \<or> isChained s) \<and> \<not> isResourceLocator s
      \<longrightarrow> webLocResolver x ty s op t r w = (Inr (PageLocator s), w))
   \<and> (isResourceLocator s
      \<longrightarrow> webLocResolver x ty s op t r w = resolveResource x s w)"
proof (intro conjI impI)
  assume "isResourceLocator s"
  then have "startsWith s ''loc.''" by (simp add: isResourceLocator_def)
  then show "webLocResolver x ty s op t r w = resolveResource x s w"
    by (rule resource_locator_branch)
qed (simp_all add: webLocResolver_def toLowerCase_def toLowerChar_def)

theorem no_check_returns_undefined_witness:
  "\<not> isPlaywrightPrefixed ''Submit'' \<and> \<not> isPlaywrightChainedPrefixed ''Submit''
   \<and> \<not> isXPath ''Submit'' \<and> \<not> isCSS ''Submit'' \<and> \<not> isChained ''Submit''
   \<and> \<not> isResourceLocator ''Submit''
   \<and> webLocResolver noExternals (Some ''button'') ''Submit'' (Some ''-no-check-'') None ''''
        emptyWorld = (Inr UndefinedHandle, emptyWorld)
   \<and> isPlaywrightPrefixed ''css=#main''
   \<and> webLocResolver noExternals (Some ''button'') ''css=#main'' (Some ''-no-check-'') None ''''
        emptyWorld = (Inr (PageLocator ''#main''), emptyWorld)
   \<and> \<not> isPlaywrightPrefixed ''chain=form >> input''
   \<and> isPlaywrightChainedPrefixed ''chain=form >> input''
   \<and> webLocResolver noExternals (Some ''input'') ''chain=form >> input'' (Some ''-no-check-'') None
        '''' emptyWorld = (Inr (PageLocator ''form >> input''), emptyWorld)
   \<and> \<not> isPlaywrightPrefixed ''//div'' \<and> \<not> isPlaywrightChainedPrefixed ''//div''
   \<and> isXPath ''//div'' \<and> \<not> isResourceLocator ''//div''
   \<and> webLocResolver noExternals (Some ''button'') ''//div'' (Some ''-no-check-'') None ''''
        emptyWorld = (Inr (PageLocator ''//div''), emptyWorld)
   \<and> isResourceLocator ''loc.login.home.user''
   \<and> resolveResource sampleExternals ''loc.login.home.user'' emptyWorld
        = (Inr (Produced ''login.home.user''), emptyWorld)
   \<and> webLocResolver sampleExternals (Some ''input'') ''loc.login.home.user'' (Some ''-no-check-'')
        None '''' emptyWorld = (Inr (Produced ''login.home.user''), emptyWorld)"
proof -
  have a: "\<not> isPlaywrightPrefixed ''Submit''"
    by (simp add: isPlaywrightPrefixed_def startsWith_def)
  have b: "\<not> isPlaywrightChainedPrefixed ''Submit''"
    by (simp add: isPlaywrightChainedPrefixed_def startsWith_def)
  have c: "\<not> isXPath ''Submit''"
    by (simp add: isXPath_def startsWith_def trim_def isWhiteSpace_def)
  have d: "\<not> isCSS ''Submit''"
    by (simp add: isCSS_def startsWith_def)
  have e: "\<not> isChained ''Submit''"
    by (simp add: isChained_def startsWith_def)
  have f: "\<not> isResourceLocator ''Submit''"
    by (simp add: isResourceLocator_def startsWith_def)
  have g: "isPlaywrightPrefixed ''css=#main''"
    by (simp add: isPlaywrightPrefixed_def startsWith_def)
  have g': "rawSelector ''css=#main'' = ''#main''"
    by (simp add: rawSelector_def startsWith_def unescapeSlashes.simps)
  have h: "\<not> isPlaywrightPrefixed ''chain=form >> input''"
    by (simp add: isPlaywrightPrefixed_def startsWith_def)
  have i: "isPlaywrightChainedPrefixed ''chain=form >> input''"
    by (simp add: isPlaywrightChainedPrefixed_def startsWith_def)
  have i': "chainSelector ''chain=form >> input'' = ''form >> input''"
    by (simp add: chainSelector_def startsWith_def)
  have j: "\<not> isPlaywrightPrefixed ''//div''"
    by (simp add: isPlaywrightPrefixed_def startsWith_def)
  have k: "\<not> isPlaywrightChainedPrefixed ''//div''"
    by (simp add: isPlaywrightChainedPrefixed_def startsWith_def)
  have l: "isXPath ''//div''"
    by (simp add: isXPath_def startsWith_def trim_def isWhiteSpace_def)
  have m: "\<not> isResourceLocator ''//div''"
    by (simp add: isResourceLocator_def startsWith_def)
  have n: "isResourceLocator ''loc.login.home.user''"
    by (simp add: isResourceLocator_def startsWith_def)
  have n': "resolveResource sampleExternals ''loc.login.home.user'' emptyWorld
        = (Inr (Produced ''login.home.user''), emptyWorld)"
    by (simp add: resolveResource_def startsWith_def partAt_def locLookup_def sampleExternals_def
        noExternals_def)
  note t = no_check_returns_undefined
    [of _ _ "Some ''button''" None "''''" emptyWorld "Some ''-no-check-''"]
  from t [of "''Submit''" noExternals] a b c d e f
  have 1: "webLocResolver noExternals (Some ''button'') ''Submit'' (Some ''-no-check-'') None ''''
        emptyWorld = (Inr UndefinedHandle, emptyWorld)" by simp
  from t [of "''css=#main''" noExternals] g g'
  have 2: "webLocResolver noExternals (Some ''button'') ''css=#main'' (Some ''-no-check-'') None ''''
        emptyWorld = (Inr (PageLocator ''#main''), emptyWorld)" by simp
  from t [of "''//div''" noExternals] j k l m
  have 4: "webLocResolver noExternals (Some ''button'') ''//div'' (Some ''-no-check-'') None ''''
        emptyWorld = (Inr (PageLocator ''//div''), emptyWorld)" by simp
  from no_check_returns_undefined
    [of "''chain=form >> input''" noExternals "Some ''input''" None "''''" emptyWorld
      "Some ''-no-check-''"] h i i'
  have 3: "webLocResolver noExternals (Some ''input'') ''chain=form >> input'' (Some ''-no-check-'')
        None '''' emptyWorld = (Inr (PageLocator ''form >> input''), emptyWorld)" by simp
  from no_check_returns_undefined
    [of "''loc.login.home.user''" sampleExternals "Some ''input''" None "''''" emptyWorld
      "Some ''-no-check-''"] n n'
  have 5: "webLocResolver sampleExternals (Some ''input'') ''loc.login.home.user''
        (Some ''-no-check-'') None '''' emptyWorld = (Inr (Produced ''login.home.user''), emptyWorld)"
    by simp
  from a b c d e f g h i j k l m n n' 1 2 3 4 5 show ?thesis by simp
qed

section \<open>Properties of placeholder substitution\<close>

lemma replaceCallback_returns: "\<exists>r w'. replaceCallback x v w = (Inr r, w')"
  by (simp add: replaceCallback_def Let_def split: sum.splits)

lemma replaceScan_returns: "\<exists>out w'. replaceScan x s w = (Inr out, w')"
proof (induction x s w rule: replaceScan.induct)
  case (1 x w)
  show ?case by simp
next
  case (2 x c cs w)
  show ?case
  proof (cases "matchPlaceholder (c # cs)")
    case None
    from "2.IH"(1)[OF None] obtain out w' where "replaceScan x cs w = (Inr out, w')" by blast
    with None show ?thesis by simp
  next
    case (Some p)
    obtain v rest where p: "p = (v, rest)" by (cases p)
    obtain r w1 where cb: "replaceCallback x v w = (Inr r, w1)"
      using replaceCallback_returns by blast
    from "2.IH"(2)[OF Some p[symmetric] cb[symmetric] refl]
    obtain out w' where "replaceScan x rest w1 = (Inr out, w')" by blast
    with Some p cb show ?thesis by simp
  qed
qed

lemma matchPlaceholder_head:
  assumes "CHR ''}'' \<notin> set v" and "v \<noteq> []"
  shows "matchPlaceholder (''#{'' @ v @ ''}'' @ post) = Some (v, post)"
proof -
  have "takeWhile (\<lambda>c. c \<noteq> CHR ''}'') (v @ CHR ''}'' # post) = v"
    using assms(1) by (auto simp: takeWhile_tail)
  moreover have "dropWhile (\<lambda>c. c \<noteq> CHR ''}'') (v @ CHR ''}'' # post) = CHR ''}'' # post"
    using assms(1) by (auto simp: dropWhile_append3)
  ultimately show ?thesis using assms(2)
    by (simp add: matchPlaceholder_def startsWith_def)
qed

text \<open>
  C4: with \<open>missing\<close> absent from the store, \<open>replaceVariables("#{missing.(toNumber)}")\<close>
  returns the text \<open>NaN\<close>, not the empty string.
\<close>

theorem toNumber_missing_key_gives_NaN:
  "storedVars emptyWorld ''missing'' = None
   \<and> fst (replaceVariables noExternals ''#{missing.(toNumber)}'' emptyWorld) = Inr ''NaN''"
  by (simp add: replaceVariables_def matchPlaceholder_def startsWith_def endsWith_def
      replaceCallback_def getValue_def trim_def isWhiteSpace_def emptyWorld_def Number_def
      unsignedDecimalValue_def isDecimalDigit_def numberToString_def toNumber_def
      objectPrototypeKeys_def Let_def warn_def)

lemma terminated_suffix: "terminated (a @ b) \<Longrightarrow> terminated b"
  by (induction a) auto

lemma matchPlaceholder_SomeD:
  assumes "matchPlaceholder s = Some (v, r)"
  shows "s = ''#{'' @ v @ ''}'' @ r"
proof -
  let ?P = "\<lambda>c. c \<noteq> CHR ''}''"
  let ?d = "dropWhile ?P (drop 2 s)"
  from assms have sw: "startsWith s ''#{''" and v: "v = takeWhile ?P (drop 2 s)"
    and ne: "?d \<noteq> []" and r: "r = tl ?d"
    by (auto simp: matchPlaceholder_def Let_def split: if_splits)
  from ne have "hd ?d = CHR ''}''" using hd_dropWhile[of ?P "drop 2 s"] by simp
  with ne r have d: "?d = CHR ''}'' # r" by (cases ?d) auto
  have "drop 2 s = v @ ?d" by (simp add: v)
  then have "drop 2 s = v @ ''}'' @ r" using d by simp
  moreover from sw have "s = ''#{'' @ drop 2 s"
    by (metis append_take_drop_id length_Cons list.size(3) startsWith_def numeral_2_eq_2)
  ultimately show ?thesis by simp
qed

lemma matchPlaceholder_append:
  assumes "\<not> startsWith (c # cs) ''#{'' \<or> CHR ''}'' \<in> set (drop 1 cs)"
    and "\<not> startsWith rest ''{''"
  shows "matchPlaceholder ((c # cs) @ rest)
           = map_option (\<lambda>(v, r). (v, r @ rest)) (matchPlaceholder (c # cs))"
proof (cases "startsWith (c # cs) ''#{''")
  case True
  let ?P = "\<lambda>c. c \<noteq> CHR ''}''"
  from True obtain q where cs: "cs = CHR ''{'' # q" and c: "c = CHR ''#''"
    by (cases cs) (auto simp: startsWith_def)
  from assms(1) True cs have b: "CHR ''}'' \<in> set q" by simp
  then have t: "takeWhile ?P (q @ rest) = takeWhile ?P q"
    by (intro takeWhile_append1[of "CHR ''}''"]) simp_all
  from b have d: "dropWhile ?P (q @ rest) = dropWhile ?P q @ rest"
    by (intro dropWhile_append1[of "CHR ''}''"]) simp_all
  from b have ne: "dropWhile ?P q \<noteq> []" by (auto simp: dropWhile_eq_Nil_conv)
  show ?thesis using t d ne
    by (simp add: matchPlaceholder_def cs c startsWith_def Let_def)
next
  case False
  then have "\<not> startsWith ((c # cs) @ rest) ''#{''"
    using assms(2) by (cases cs; cases rest) (auto simp: startsWith_def)
  with False show ?thesis by (simp add: matchPlaceholder_def)
qed

text \<open>
  The scan of a text \<open>pre @ rest\<close> is the scan of \<open>pre\<close> followed by the scan of \<open>rest\<close>, as soon
  as no match that begins in \<open>pre\<close> can reach into \<open>rest\<close>.
\<close>

lemma replaceScan_append:
  assumes "terminated pre" and "\<not> startsWith rest ''{''"
    and "replaceScan x pre w = (Inr out1, w1)" and "replaceScan x rest w1 = (Inr out2, w2)"
  shows "replaceScan x (pre @ rest) w = (Inr (out1 @ out2), w2)"
  using assms
proof (induction x pre w arbitrary: out1 rule: replaceScan.induct)
  case (1 x w)
  then show ?case by simp
next
  case (2 x c cs w)
  from "2.prems"(1)
  have h: "\<not> startsWith (c # cs) ''#{'' \<or> CHR ''}'' \<in> set (drop 1 cs)" and t: "terminated cs"
    by simp_all
  note m = matchPlaceholder_append[OF h "2.prems"(2)]
  show ?case
  proof (cases "matchPlaceholder (c # cs)")
    case None
    obtain o' w' where r: "replaceScan x cs w = (Inr o', w')"
      using replaceScan_returns by blast
    with None "2.prems"(3) have o: "out1 = c # o'" and w': "w' = w1" by simp_all
    from "2.IH"(1)[OF None t "2.prems"(2) r[unfolded w'] "2.prems"(4)]
    have "replaceScan x (cs @ rest) w = (Inr (o' @ out2), w2)" .
    moreover from m None have "matchPlaceholder (c # cs @ rest) = None" by simp
    ultimately show ?thesis using o by simp
  next
    case (Some p)
    obtain v r where p: "p = (v, r)" by (cases p)
    obtain rr w' where cb: "replaceCallback x v w = (Inr rr, w')"
      using replaceCallback_returns by blast
    obtain o' w'' where s: "replaceScan x r w' = (Inr o', w'')"
      using replaceScan_returns by blast
    from Some p cb s "2.prems"(3) have o: "out1 = rr @ o'" and w'': "w'' = w1" by simp_all
    from matchPlaceholder_SomeD[OF Some[unfolded p]] have "c # cs = (''#{'' @ v @ ''}'') @ r"
      by simp
    with "2.prems"(1) have tr: "terminated r" using terminated_suffix by metis
    from "2.IH"(2)[OF Some p[symmetric] cb[symmetric] refl tr "2.prems"(2) s[unfolded w'']
        "2.prems"(4)]
    have "replaceScan x (r @ rest) w' = (Inr (o' @ out2), w2)" .
    moreover from m Some p have "matchPlaceholder (c # cs @ rest) = Some (v, r @ rest)" by simp
    ultimately show ?thesis using o cb by simp
  qed
qed

text \<open>
  A text whose last \<open>#{\<close> is never closed takes what follows into its own match: after \<open>#{a\<close>
  the text \<open>#{pwd.abc}\<close> is not a placeholder but the tail of the variable name \<open>a#{pwd.abc\<close>.
\<close>

lemma unterminated_prefix_takes_placeholder:
  "\<not> terminated ''#{a''
   \<and> replaceVariables noExternals ''#{a#{pwd.abc}'' emptyWorld
       = (Inr ''a#{pwd.abc'',
          emptyWorld\<lparr>loggedMissingKeys := {''a#{pwd.abc''},
                      console := [VariableNotFound ''a#{pwd.abc'']\<rparr>)"
  by (simp add: replaceVariables_def matchPlaceholder_def startsWith_def endsWith_def
        replaceCallback_def getValue_def trim_def isWhiteSpace_def emptyWorld_def toText_def
        objectPrototypeKeys_def Let_def warn_def)

text \<open>
  C10: for every string input, every collaborator behaviour and every store,
  \<open>replaceVariables\<close> returns a string and does not throw. When decryption of \<open>c\<close> fails with \<open>e\<close>,
  the replacer called on \<open>pwd.c\<close> (or \<open>enc.c\<close>) returns that very text and appends the decryption
  warning to the console. So a placeholder \<open>#{pwd.c}\<close> (or \<open>#{enc.c}\<close>) anywhere in the input,
  after any text \<open>pre\<close> in which every \<open>#{\<close> is closed and before any text \<open>post\<close>, is replaced
  by \<open>pwd.c\<close> (or \<open>enc.c\<close>): the result is what the substitution makes of \<open>pre\<close>, then that
  literal text, then what the substitution makes of \<open>post\<close> on the store and console left by
  \<open>pre\<close> with the warning added.
\<close>

theorem replaceVariables_never_throws:
  "(\<exists>out w'. replaceVariables x s w = (Inr out, w'))
   \<and> (cryptoDecrypt x c = Inl e \<longrightarrow> CHR ''}'' \<notin> set c \<longrightarrow> k \<in> {''pwd'', ''enc''} \<longrightarrow>
        replaceCallback x (k @ ''.'' @ c) w
          = (Inr (k @ ''.'' @ c), w\<lparr>console := console w @ [DecryptWarning k e]\<rparr>)
        \<and> (terminated pre \<longrightarrow>
            (\<exists>out1 w1 out2 w2.
                replaceVariables x pre w = (Inr out1, w1)
              \<and> replaceVariables x post (w1\<lparr>console := console w1 @ [DecryptWarning k e]\<rparr>)
                  = (Inr out2, w2)
              \<and> replaceVariables x (pre @ ''#{'' @ k @ ''.'' @ c @ ''}'' @ post) w
                  = (Inr (out1 @ k @ ''.'' @ c @ out2), w2))))"
proof (intro conjI impI)
  show "\<exists>out w'. replaceVariables x s w = (Inr out, w')"
    unfolding replaceVariables_def by (rule replaceScan_returns)
next
  assume d: "cryptoDecrypt x c = Inl e" and nb: "CHR ''}'' \<notin> set c"
    and k: "k \<in> {''pwd'', ''enc''}"
  have cb: "replaceCallback x (k @ ''.'' @ c) w'
              = (Inr (k @ ''.'' @ c), w'\<lparr>console := console w' @ [DecryptWarning k e]\<rparr>)" for w'
    using d k by (auto simp: replaceCallback_def startsWith_def warn_def)
  show "replaceCallback x (k @ ''.'' @ c) w
          = (Inr (k @ ''.'' @ c), w\<lparr>console := console w @ [DecryptWarning k e]\<rparr>)"
    by (rule cb)
  assume t: "terminated pre"
  let ?ph = "''#{'' @ (k @ ''.'' @ c) @ ''}'' @ post"
  obtain out1 w1 where r1: "replaceScan x pre w = (Inr out1, w1)"
    using replaceScan_returns by blast
  obtain out2 w2
    where r2: "replaceScan x post (w1\<lparr>console := console w1 @ [DecryptWarning k e]\<rparr>)
                 = (Inr out2, w2)"
    using replaceScan_returns by blast
  have "CHR ''}'' \<notin> set (k @ ''.'' @ c)" using nb k by auto
  then have m: "matchPlaceholder ?ph = Some (k @ ''.'' @ c, post)"
    by (rule matchPlaceholder_head) simp
  have ph: "replaceScan x ?ph w1 = (Inr ((k @ ''.'' @ c) @ out2), w2)"
    using m cb[of w1] r2 by simp
  have "\<not> startsWith ?ph ''{''" by (simp add: startsWith_def)
  from replaceScan_append[OF t this r1 ph]
  have "replaceScan x (pre @ ?ph) w = (Inr (out1 @ (k @ ''.'' @ c) @ out2), w2)" .
  with r1 r2
  show "\<exists>out1 w1 out2 w2.
                replaceVariables x pre w = (Inr out1, w1)
              \<and> replaceVariables x post (w1\<lparr>console := console w1 @ [DecryptWarning k e]\<rparr>)
                  = (Inr out2, w2)
              \<and> replaceVariables x (pre @ ''#{'' @ k @ ''.'' @ c @ ''}'' @ post) w
                  = (Inr (out1 @ k @ ''.'' @ c @ out2), w2)"
    by (auto simp: replaceVariables_def)
qed

theorem replaceVariables_never_throws_witness:
  "cryptoDecrypt noExternals ''abc'' = Inl (External ''decrypt'')
   \<and> CHR ''}'' \<notin> set ''abc'' \<and> ''pwd'' \<in> {''pwd'', ''enc''} \<and> terminated ''id=#{user} pw=''
   \<and> replaceVariables noExternals ''id=#{user} pw=#{pwd.abc}!'' emptyWorld
       = (Inr ''id=user pw=pwd.abc!'',
          emptyWorld\<lparr>loggedMissingKeys := {''user''},
                      console := [VariableNotFound ''user'',
                                  DecryptWarning ''pwd'' (External ''decrypt'')]\<rparr>)"
proof -
  let ?w1 = "emptyWorld\<lparr>loggedMissingKeys := {''user''}, console := [VariableNotFound ''user'']\<rparr>"
  let ?w2 = "emptyWorld\<lparr>loggedMissingKeys := {''user''},
                      console := [VariableNotFound ''user'',
                                  DecryptWarning ''pwd'' (External ''decrypt'')]\<rparr>"
  have d: "cryptoDecrypt noExternals ''abc'' = Inl (External ''decrypt'')"
    by (simp add: noExternals_def)
  have t: "terminated ''id=#{user} pw=''"
    by (simp add: startsWith_def)
  have p: "replaceVariables noExternals ''id=#{user} pw='' emptyWorld = (Inr ''id=user pw='', ?w1)"
    by (simp add: replaceVariables_def matchPlaceholder_def startsWith_def endsWith_def
        replaceCallback_def getValue_def trim_def isWhiteSpace_def emptyWorld_def toText_def
        objectPrototypeKeys_def Let_def warn_def)
  have q: "replaceVariables noExternals ''!'' w = (Inr ''!'', w)" for w
    by (simp add: replaceVariables_def matchPlaceholder_def startsWith_def)
  from replaceVariables_never_throws
    [of noExternals "''''" emptyWorld "''abc''" "External ''decrypt''" "''pwd''"
      "''id=#{user} pw=''" "''!''"] d t
  obtain out1 w1 out2 w2 where
    1: "replaceVariables noExternals ''id=#{user} pw='' emptyWorld = (Inr out1, w1)"
    and 2: "replaceVariables noExternals ''!''
          (w1\<lparr>console := console w1 @ [DecryptWarning ''pwd'' (External ''decrypt'')]\<rparr>)
        = (Inr out2, w2)"
    and 3: "replaceVariables noExternals
          (''id=#{user} pw='' @ ''#{'' @ ''pwd'' @ ''.'' @ ''abc'' @ ''}'' @ ''!'') emptyWorld
        = (Inr (out1 @ ''pwd'' @ ''.'' @ ''abc'' @ out2), w2)"
    by auto
  from 1 p have o1: "out1 = ''id=user pw=''" and w1: "w1 = ?w1" by simp_all
  from 2 q have o2: "out2 = ''!''"
    and w2: "w2 = w1\<lparr>console := console w1 @ [DecryptWarning ''pwd'' (External ''decrypt'')]\<rparr>"
    by simp_all
  have "w2 = ?w2" by (simp add: w2 w1)
  with 3 o1 o2 d t show ?thesis by simp
qed

section \<open>The missing-variable warning over a process lifetime\<close>









text \<open>
  A key that begins with \<open>env.\<close> never warns: \<open>env.HOME\<close> is absent from the store, and
  \<open>getValue("env.HOME")\<close> with the environment variable unset returns without logging anything.
\<close>

lemma getValue_env_key_no_warning:
  "storedVars emptyWorld ''env.HOME'' = None
   \<and> console (getValueTimes 1 ''env.HOME'' emptyWorld) = []"
  by (simp add: getValue_def emptyWorld_def trim_def isWhiteSpace_def startsWith_def
      objectPrototypeKeys_def Let_def)




section \<open>Properties of parseLooseJson\<close>

lemmas regex_eval = regexReplaceAll.simps regexReplace_def stepChar_def remaining_def capture_def
  Plus_def Opt_def Str_def groupText_def isWordChar_def isWhiteSpace_def DQ_def SQ_def

lemma maskLocators_claimInput:
  "maskLocators claimInput = (maskedText, [[DQ] @ ''xpath=//div[@id=1]'' @ [DQ]])"
  by (simp add: maskLocators_def claimInput_def maskedText_def locatorRegex_def locatorValue_def
      regex_eval showNat.simps trim_def)

lemma convertSingleQuotes_maskedText: "convertSingleQuotes maskedText = maskedText"
  by (simp add: convertSingleQuotes_def maskedText_def singleQuoteRegex_def regex_eval)

lemma quoteBareKeys_maskedText: "quoteBareKeys maskedText = quotedText"
  by (simp add: quoteBareKeys_def maskedText_def quotedText_def bareKeyRegex_def wordChars_def
      regex_eval)

lemma replaceLiteral_True_quotedText: "replaceLiteral ''True'' v quotedText = quotedText"
  by (simp add: replaceLiteral_def quotedText_def literalRegex_def regex_eval)

lemma replaceLiteral_False_quotedText: "replaceLiteral ''False'' v quotedText = quotedText"
  by (simp add: replaceLiteral_def quotedText_def literalRegex_def regex_eval)

lemma replaceLiteral_None_quotedText: "replaceLiteral ''None'' v quotedText = quotedText"
  by (simp add: replaceLiteral_def quotedText_def literalRegex_def regex_eval)

lemma stripTrailingCommas_quotedText: "stripTrailingCommas quotedText = quotedText"
  by (simp add: stripTrailingCommas_def quotedText_def trailingCommaRegex_def regex_eval)

lemma normalizeLoose_maskedText: "normalizeLoose (convertSingleQuotes maskedText) = quotedText"
  by (simp only: normalizeLoose_def convertSingleQuotes_maskedText quoteBareKeys_maskedText
      replaceLiteral_True_quotedText replaceLiteral_False_quotedText
      replaceLiteral_None_quotedText stripTrailingCommas_quotedText)

lemma restoreLocators_quotedText:
  "restoreLocators 0 [[DQ] @ ''xpath=//div[@id=1]'' @ [DQ]] quotedText = strictText"
  by (simp add: quotedText_def strictText_def showNat.simps startsWith_def DQ_def SQ_def)

lemma looseToJson_claimInput: "looseToJson claimInput = strictText"
  by (simp only: looseToJson_def maskLocators_claimInput normalizeLoose_maskedText
      restoreLocators_quotedText prod.case)

lemma lexAll_strictText:
  "lexAll LStart strictText =
     Some [TLBrace, TString ''name'', TColon, TString ''x'', TComma,
           TString ''locator'', TColon, TString ''xpath=//div[@id=1]'', TComma,
           TString ''count'', TColon, TNumber 3, TRBrace]"
  by (simp add: strictText_def DQ_def lexStep_def startStep_def lexEnd_def jsonNumber_def
      startsWith_def isDecimalDigit_def digitsValue_def digitValue_def)

lemma JSONparse_strictText:
  "JSONparse strictText =
     Some (JObj [(''name'', JStr ''x''), (''locator'', JStr ''xpath=//div[@id=1]''),
                 (''count'', JNum 3)])"
  by (simp add: JSONparse_def lexAll_strictText parseStep_def startValue_def)

text \<open>
  C6: \<open>parseLooseJson\<close> applied to \<open>{name: "x", locator: xpath=//div[@id=1], count: 3}\<close> returns
  the object with \<open>name\<close> \<open>"x"\<close>, \<open>locator\<close> \<open>"xpath=//div[@id=1]"\<close> and \<open>count\<close> \<open>3\<close>. On the way the
  locator value is first put aside, quoted, behind \<open>__LOCATOR_PLACEHOLDER_0__\<close>; the quote, key,
  literal and comma transforms then run on the masked text and leave the placeholder alone; the
  value is put back, unchanged, before \<open>JSON.parse\<close>.
\<close>

theorem parseLooseJson_locator_example:
  "maskLocators claimInput = (maskedText, [[DQ] @ ''xpath=//div[@id=1]'' @ [DQ]])
   \<and> normalizeLoose (convertSingleQuotes maskedText) = quotedText
   \<and> restoreLocators 0 [[DQ] @ ''xpath=//div[@id=1]'' @ [DQ]] quotedText = strictText
   \<and> parseLooseJson claimInput =
       Inr (JObj [(''name'', JStr ''x''), (''locator'', JStr ''xpath=//div[@id=1]''),
                  (''count'', JNum 3)])"
proof -
  have "trim claimInput = claimInput"
    by (simp add: claimInput_def trim_def isWhiteSpace_def DQ_def)
  moreover have "startsWith claimInput ''{''"
    by (simp add: claimInput_def startsWith_def)
  moreover have "endsWith claimInput ''}''"
    by (simp add: claimInput_def endsWith_def DQ_def)
  moreover have "claimInput \<noteq> []" and "claimInput \<noteq> [DQ, DQ]"
    by (simp_all add: claimInput_def)
  ultimately have "parseLooseJson claimInput =
       Inr (JObj [(''name'', JStr ''x''), (''locator'', JStr ''xpath=//div[@id=1]''),
                  (''count'', JNum 3)])"
    by (simp add: parseLooseJson_def looseToJson_claimInput JSONparse_strictText)
  then show ?thesis
    by (simp only: maskLocators_claimInput normalizeLoose_maskedText restoreLocators_quotedText
        simp_thms)
qed

theorem parseLooseJson_locator_example_witness:
  "parseLooseJson claimInput =
       Inr (JObj [(''name'', JStr ''x''), (''locator'', JStr ''xpath=//div[@id=1]''),
                  (''count'', JNum 3)])"
  by (rule conjunct2 [OF conjunct2 [OF conjunct2 [OF parseLooseJson_locator_example]]])

section \<open>Properties of waitForTextAtLocation\<close>

lemma waitLoop_skip_misses:
  assumes "\<forall>j<m. pollMisses d target expectedText T pm ic (i + j)"
  shows "waitLoop d target expectedText T pm ic (m + n) i la
       = waitLoop d target expectedText T pm ic n (i + m)
           (if m = 0 then la else lastObserved d target (i + m))"
  using assms
proof (induction m arbitrary: i la)
  case 0
  show ?case by simp
next
  case (Suc m)
  from Suc.prems have "pollMisses d target expectedText T pm ic (i + 0)"
    by blast
  then have h0: "pollMisses d target expectedText T pm ic i" by simp
  then obtain a where it: "pollInTime d T i" and rd: "pollReads d target i = Some a"
    and nm: "\<not> textMatches pm ic expectedText a"
    by (auto simp: pollMisses_def split: option.splits)
  from rd obtain raw where tx: "innerText d target (pollTime d i) = Inr raw" and a: "a = trim raw"
    by (auto simp: pollReads_def split: sum.splits)
  have step: "waitLoop d target expectedText T pm ic (Suc m + n) i la
        = waitLoop d target expectedText T pm ic (m + n) (Suc i) a"
    using it tx a nm by (simp add: pollInTime_def)
  have "\<forall>j<m. pollMisses d target expectedText T pm ic (Suc i + j)"
  proof (intro allI impI)
    fix j assume "j < m"
    then have "Suc j < Suc m" by simp
    with Suc.prems have "pollMisses d target expectedText T pm ic (i + Suc j)" by blast
    then show "pollMisses d target expectedText T pm ic (Suc i + j)" by simp
  qed
  from Suc.IH[OF this, of a]
  have ih: "waitLoop d target expectedText T pm ic (m + n) (Suc i) a
       = waitLoop d target expectedText T pm ic n (Suc i + m)
           (if m = 0 then a else lastObserved d target (Suc i + m))" .
  have "(if m = 0 then a else lastObserved d target (Suc i + m)) = lastObserved d target (i + Suc m)"
    using rd by (simp add: lastObserved_def)
  with step ih show ?case by simp
qed

lemma waitLoop_hit:
  assumes "pollHits d target expectedText T pm ic k"
  shows "\<exists>a. pollReads d target k = Some a
           \<and> waitLoop d target expectedText T pm ic (Suc n) k la = Some (Inr (True, a))"
  using assms
  by (auto simp: pollHits_def pollReads_def pollInTime_def split: option.splits sum.splits)

lemma waitLoop_out_of_time:
  assumes "\<not> pollInTime d T k"
  shows "waitLoop d target expectedText T pm ic (Suc n) k la = Some (Inr (False, la))"
  using assms by (simp add: pollInTime_def)

lemma waitLoop_skip_from_start:
  assumes "\<forall>j<k. pollMisses d target expectedText T pm ic j"
  shows "waitLoop d target expectedText T pm ic (k + n) 0 []
       = waitLoop d target expectedText T pm ic n k (lastObserved d target k)"
proof -
  have "waitLoop d target expectedText T pm ic (k + n) 0 []
      = waitLoop d target expectedText T pm ic n (0 + k)
          (if k = 0 then [] else lastObserved d target (0 + k))"
    by (rule waitLoop_skip_misses) (use assms in simp)
  moreover have "(if k = 0 then [] else lastObserved d target (0 + k)) = lastObserved d target k"
    by (simp add: lastObserved_def)
  ultimately show ?thesis by (simp only: add_0)
qed

lemma waitLoop_found:
  assumes "\<forall>j<k. pollMisses d target expectedText T pm ic j"
    and "pollHits d target expectedText T pm ic k" and "k < fuel"
  shows "\<exists>a. waitLoop d target expectedText T pm ic fuel 0 [] = Some (Inr (True, a))"
proof -
  from less_imp_Suc_add[OF assms(3)] obtain n where f: "fuel = k + Suc n" by auto
  from waitLoop_hit[OF assms(2), of n "lastObserved d target k"] obtain a where
    "waitLoop d target expectedText T pm ic (Suc n) k (lastObserved d target k)
       = Some (Inr (True, a))" by blast
  then have "waitLoop d target expectedText T pm ic fuel 0 [] = Some (Inr (True, a))"
    unfolding f waitLoop_skip_from_start[OF assms(1)] .
  then show ?thesis by blast
qed

lemma waitLoop_not_found:
  assumes "\<forall>j<k. pollMisses d target expectedText T pm ic j"
    and "\<not> pollInTime d T k" and "k < fuel"
  shows "waitLoop d target expectedText T pm ic fuel 0 []
           = Some (Inr (False, lastObserved d target k))"
proof -
  from less_imp_Suc_add[OF assms(3)] obtain n where f: "fuel = k + Suc n" by auto
  show ?thesis
    unfolding f waitLoop_skip_from_start[OF assms(1)]
    by (rule waitLoop_out_of_time[OF assms(2)])
qed

lemma wait_returns:
  assumes "resolveActionTimeout opts w = (T, w0)"
    and "resolveTarget x field opts T w0 = (Inr target, w1)"
    and "attachLog d False w1 = (Inr (), w2)"
    and "\<forall>j<k. pollMisses d target expectedText T (partialMatchOption opts) (ignoreCaseOption opts) j"
    and "pollHits d target expectedText T (partialMatchOption opts) (ignoreCaseOption opts) k"
    and "k < fuel"
  shows "waitForTextAtLocation x d True field expectedText opts fuel w
           = Some (processScreenshot d True (screenshotOption opts) w2)"
proof -
  from waitLoop_found[OF assms(4,5,6)] obtain a where
    "waitLoop d target expectedText T (partialMatchOption opts) (ignoreCaseOption opts) fuel 0 []
       = Some (Inr (True, a))" by blast
  with assms(1-3) show ?thesis by (simp add: waitForTextAtLocation_def)
qed

lemma wait_throws:
  assumes "resolveActionTimeout opts w = (T, w0)"
    and "resolveTarget x field opts T w0 = (Inr target, w1)"
    and "attachLog d False w1 = (Inr (), w2)"
    and "\<forall>j<k. pollMisses d target expectedText T (partialMatchOption opts) (ignoreCaseOption opts) j"
    and "\<not> pollInTime d T k"
    and "k < fuel"
  shows "waitForTextAtLocation x d True field expectedText opts fuel w
           = Some (Inl (TextNotFound expectedText field T (lastObserved d target k)), w2)"
  using assms(1-3) waitLoop_not_found[OF assms(4,5,6)]
  by (simp add: waitForTextAtLocation_def)


lemma configured_timeout:
  "resolveActionTimeout partialOptions configuredWorld = (Finite 5000, configuredWorld)"
  by (simp add: resolveActionTimeout_def partialOptions_def noOptions_def configuredWorld_def
      emptyWorld_def getConfigValue_def replaceDots_def trim_def isWhiteSpace_def Number_def
      startsWith_def unsignedDecimalValue_def isDecimalDigit_def digitsValue_def digitValue_def
      toDouble_def overflowBound_def)

lemma configured_target:
  "resolveTarget noExternals (Inl ''h1'') partialOptions (Finite 5000) configuredWorld
     = (Inr (PageLocator ''h1''), resolvedWorld)"
  by (simp add: resolveTarget_def webLocResolver_def resolveByEngines_def partialOptions_def
      noOptions_def isPlaywrightPrefixed_def isPlaywrightChainedPrefixed_def isXPath_def
      isCSS_def isChained_def isResourceLocator_def startsWith_def trim_def isWhiteSpace_def
      getConfigValue_def replaceDots_def configuredWorld_def resolvedWorld_def emptyWorld_def
      noExternals_def toLowerCase_def toLowerChar_def Let_def)

lemma configured_attachLog:
  "attachLog (pollingDriver pageText) False resolvedWorld = (Inr (), resolvedWorld)"
  by (simp add: attachLog_def isCucumberRunner_def isPlaywrightRunner_def resolvedWorld_def
      configuredWorld_def emptyWorld_def)

lemma configured_screenshot:
  "processScreenshot (pollingDriver pageText) True (screenshotOption partialOptions) resolvedWorld
     = (Inr (), resolvedWorld)"
  by (simp add: processScreenshot_def screenshotOption_def partialOptions_def noOptions_def)

lemma polling_in_time:
  "pollInTime (pollingDriver pageText) (Finite 5000) j = (300 * int j < 5000)"
proof -
  have "((of_int (300 * int j) :: rat) < of_int 5000) = (300 * int j < 5000)"
    by (rule of_int_less_iff)
  then show ?thesis
    by (simp add: pollInTime_def pollingDriver_def lessThanNumber_def)
qed

lemma polling_reads:
  "pollReads (pollingDriver pageText) (PageLocator s) j = Some (trim (pageText (300 * int j)))"
  by (simp add: pollReads_def pollingDriver_def innerText_def)

lemma loading_misses: "\<not> textMatches True True ''Welcome'' (trim ''Loading'')"
  by (simp add: textMatches_def trim_def isWhiteSpace_def startsWith_def)

lemma welcome_hits: "textMatches True True ''Welcome'' (trim ''Welcome to PlayQ'')"
  by (simp add: textMatches_def trim_def isWhiteSpace_def startsWith_def)

lemma polling_misses:
  assumes "300 * int j < t0" and "300 * int j < 5000"
  shows "pollMisses (pollingDriver (textAppearingAt t0)) (PageLocator s) ''Welcome'' (Finite 5000)
           True True j"
  using assms loading_misses
  by (simp add: pollMisses_def polling_in_time polling_reads textAppearingAt_def)

text \<open>
  C9, as stated, fails: with the timeout configured as 5000 and polls every 300 ms, a text that
  becomes present at 4900 ms, before the timeout elapses, is never read (the polls fall at
  4800 and 5100), and the call throws.
\<close>

theorem wait_misses_late_text_counterexample:
  "innerText (pollingDriver (textAppearingAt 4900)) (PageLocator ''h1'') 4900 = Inr ''Welcome to PlayQ''
   \<and> textMatches True True ''Welcome'' (trim ''Welcome to PlayQ'')
   \<and> lessThanNumber (4900 - startTime (pollingDriver (textAppearingAt 4900))) (Finite 5000)
   \<and> waitForTextAtLocation noExternals (pollingDriver (textAppearingAt 4900)) True (Inl ''h1'')
        ''Welcome'' partialOptions 20 configuredWorld
       = Some (Inl (TextNotFound ''Welcome'' (Inl ''h1'') (Finite 5000) ''Loading''), resolvedWorld)"
proof -
  let ?d = "pollingDriver (textAppearingAt 4900)"
  have pm: "partialMatchOption partialOptions = True" "ignoreCaseOption partialOptions = True"
    by (simp_all add: partialMatchOption_def ignoreCaseOption_def partialOptions_def noOptions_def)
  have m: "\<forall>j<17. pollMisses ?d (PageLocator ''h1'') ''Welcome'' (Finite 5000)
              (partialMatchOption partialOptions) (ignoreCaseOption partialOptions) j"
    unfolding pm by (intro allI impI polling_misses) simp_all
  have o: "\<not> pollInTime ?d (Finite 5000) 17" by (simp add: polling_in_time)
  have l: "lastObserved ?d (PageLocator ''h1'') 17 = ''Loading''"
  proof -
    have "(17::nat) = Suc 16" by simp
    then show ?thesis
      by (simp only: lastObserved_def nat.case polling_reads)
         (simp add: textAppearingAt_def trim_def isWhiteSpace_def)
  qed
  have "waitForTextAtLocation noExternals ?d True (Inl ''h1'') ''Welcome'' partialOptions 20
          configuredWorld
        = Some (Inl (TextNotFound ''Welcome'' (Inl ''h1'') (Finite 5000)
                  (lastObserved ?d (PageLocator ''h1'') 17)), resolvedWorld)"
    by (rule wait_throws[OF configured_timeout configured_target configured_attachLog m o]) simp
  moreover have "innerText ?d (PageLocator ''h1'') 4900 = Inr ''Welcome to PlayQ''"
    by (simp add: innerText_def pollingDriver_def textAppearingAt_def)
  moreover have "lessThanNumber (4900 - startTime ?d) (Finite 5000)"
    by (simp add: lessThanNumber_def pollingDriver_def)
  ultimately show ?thesis using welcome_hits by (simp only: l simp_thms)
qed

text \<open>
  C9 (amended): let the action timeout resolve to \<open>T\<close> (the option, or else the configured
  value), the field resolve to a handle, and the log attachment not throw. If the first \<open>k\<close>
  polls are made while \<open>Date.now() - start < T\<close> and read texts that do not match, then: if the
  \<open>k\<close>-th poll is also made in time and reads a text that matches under the chosen
  partial/exact option, the call returns without throwing (the optional screenshot aside); if
  at the \<open>k\<close>-th test the timeout has elapsed, the call throws the error that carries the
  expected text, the field, the timeout \<open>T\<close> and the last text read. In both cases any fuel above
  \<open>k\<close> is enough for the loop to end.
\<close>

theorem waitForTextAtLocation_by_polls:
  assumes "resolveActionTimeout opts w = (T, w0)"
    and "resolveTarget x field opts T w0 = (Inr target, w1)"
    and "attachLog d False w1 = (Inr (), w2)"
    and "\<forall>j<k. pollMisses d target expectedText T (partialMatchOption opts) (ignoreCaseOption opts) j"
    and "k < fuel"
  shows "(pollHits d target expectedText T (partialMatchOption opts) (ignoreCaseOption opts) k
            \<longrightarrow> processScreenshot d True (screenshotOption opts) w2 = (Inr (), w3)
            \<longrightarrow> waitForTextAtLocation x d True field expectedText opts fuel w = Some (Inr (), w3))
       \<and> (\<not> pollInTime d T k
            \<longrightarrow> waitForTextAtLocation x d True field expectedText opts fuel w
                = Some (Inl (TextNotFound expectedText field T (lastObserved d target k)), w2))"
  using wait_returns[OF assms(1-4) _ assms(5)] wait_throws[OF assms(1-4) _ assms(5)]
  by simp

theorem waitForTextAtLocation_by_polls_witness:
  "pollHits (pollingDriver (textAppearingAt 1200)) (PageLocator ''h1'') ''Welcome'' (Finite 5000) True True 4
   \<and> waitForTextAtLocation noExternals (pollingDriver (textAppearingAt 1200)) True (Inl ''h1'')
        ''Welcome'' partialOptions 20 configuredWorld = Some (Inr (), resolvedWorld)
   \<and> \<not> pollInTime (pollingDriver (\<lambda>t. ''Loading'')) (Finite 5000) 17
   \<and> waitForTextAtLocation noExternals (pollingDriver (\<lambda>t. ''Loading'')) True (Inl ''h1'')
        ''Welcome'' partialOptions 20 configuredWorld
       = Some (Inl (TextNotFound ''Welcome'' (Inl ''h1'') (Finite 5000) ''Loading''), resolvedWorld)"
proof -
  let ?a = "pollingDriver (textAppearingAt 1200)"
  let ?n = "pollingDriver (\<lambda>t. ''Loading'')"
  have pm: "partialMatchOption partialOptions = True" "ignoreCaseOption partialOptions = True"
    by (simp_all add: partialMatchOption_def ignoreCaseOption_def partialOptions_def noOptions_def)
  have ma: "\<forall>j<4. pollMisses ?a (PageLocator ''h1'') ''Welcome'' (Finite 5000)
              (partialMatchOption partialOptions) (ignoreCaseOption partialOptions) j"
    unfolding pm by (intro allI impI polling_misses) simp_all
  have ha: "pollHits ?a (PageLocator ''h1'') ''Welcome'' (Finite 5000) True True 4"
    using welcome_hits
    by (simp add: pollHits_def polling_in_time polling_reads textAppearingAt_def)
  have mn: "\<forall>j<17. pollMisses ?n (PageLocator ''h1'') ''Welcome'' (Finite 5000)
              (partialMatchOption partialOptions) (ignoreCaseOption partialOptions) j"
    unfolding pm using loading_misses
    by (simp add: pollMisses_def polling_in_time polling_reads)
  have on: "\<not> pollInTime ?n (Finite 5000) 17" by (simp add: polling_in_time)
  have ln: "lastObserved ?n (PageLocator ''h1'') 17 = ''Loading''"
  proof -
    have "(17::nat) = Suc 16" by simp
    then show ?thesis
      by (simp only: lastObserved_def nat.case polling_reads)
         (simp add: trim_def isWhiteSpace_def)
  qed
  have s: "waitForTextAtLocation noExternals ?a True (Inl ''h1'') ''Welcome'' partialOptions 20
             configuredWorld = Some (Inr (), resolvedWorld)"
    using waitForTextAtLocation_by_polls[OF configured_timeout configured_target configured_attachLog ma,
        of 20 resolvedWorld] ha configured_screenshot
    by (simp add: pm)
  have f: "waitForTextAtLocation noExternals ?n True (Inl ''h1'') ''Welcome'' partialOptions 20
             configuredWorld
           = Some (Inl (TextNotFound ''Welcome'' (Inl ''h1'') (Finite 5000) ''Loading''),
                   resolvedWorld)"
    using waitForTextAtLocation_by_polls[OF configured_timeout configured_target configured_attachLog mn,
        of 20 resolvedWorld] on
    by (simp add: ln)
  from ha s on f show ?thesis by simp
qed

end
